theory Spec2Isabelle
  imports Complex_Main "HOL-Library.Sublist"
begin

section \<open>Python values and strings\<close>

text \<open>
  The analysis services pass around untyped Python objects: the dictionaries they build and
  the objects \<^verbatim>\<open>json.loads\<close> returns. \<open>pyval\<close> is that universe. Numbers are exact reals
  (Python's \<^verbatim>\<open>int\<close> and the finite \<^verbatim>\<open>float\<close>s, without rounding); the three non-finite floats
  that \<^verbatim>\<open>json.loads\<close> accepts (\<^verbatim>\<open>NaN\<close>, \<^verbatim>\<open>Infinity\<close>, \<^verbatim>\<open>-Infinity\<close>) are constructors of their
  own. A dictionary is an association list read with \<open>map_of\<close>. Strings are ASCII texts.
\<close>

datatype pyval =
    PNone
  | PBool bool
  | PNum real
  | PNaN
  | PInf
  | PNegInf
  | PStr string
  | PList "pyval list"
  | PDict "(string \<times> pyval) list"

type_synonym pydict = "(string \<times> pyval) list"

text \<open>The exceptions (all subclasses of \<^verbatim>\<open>Exception\<close>) that the modelled code raises or catches.\<close>

datatype error =
    JSONDecodeError
  | AttributeError
  | TypeError
  | KeyError
  | RuntimeError string
  | OtherException string

definition bind_e :: "error + 'a \<Rightarrow> ('a \<Rightarrow> error + 'b) \<Rightarrow> error + 'b" where
  "bind_e m f = (case m of Inl e \<Rightarrow> Inl e | Inr x \<Rightarrow> f x)"

text \<open>\<^verbatim>\<open>d.get(k, default)\<close> on a dictionary, and on an arbitrary object (only a dictionary has
  the method; on anything else the attribute lookup raises \<^verbatim>\<open>AttributeError\<close>).\<close>

definition dict_get :: "pydict \<Rightarrow> string \<Rightarrow> pyval \<Rightarrow> pyval" where
  "dict_get d k dflt = (case map_of d k of None \<Rightarrow> dflt | Some v \<Rightarrow> v)"

definition py_get :: "pyval \<Rightarrow> string \<Rightarrow> pyval \<Rightarrow> error + pyval" where
  "py_get obj k dflt = (case obj of PDict d \<Rightarrow> Inr (dict_get d k dflt) | _ \<Rightarrow> Inl AttributeError)"

text \<open>\<^verbatim>\<open>d[k]\<close> on a dictionary: a missing key raises \<^verbatim>\<open>KeyError\<close>.\<close>

definition dict_item :: "pydict \<Rightarrow> string \<Rightarrow> error + pyval" where
  "dict_item d k = (case map_of d k of None \<Rightarrow> Inl KeyError | Some v \<Rightarrow> Inr v)"

text \<open>The position of the first occurrence of an element; the length of the list when the
  element does not occur.\<close>

fun index_of :: "'a \<Rightarrow> 'a list \<Rightarrow> nat" where
  "index_of x [] = 0"
| "index_of x (y # ys) = (if x = y then 0 else Suc (index_of x ys))"

text \<open>\<^verbatim>\<open>str.split()\<close> without arguments: the maximal runs of non-whitespace characters. The
  whitespace characters are the ASCII ones Python's \<^verbatim>\<open>str.isspace\<close> accepts.\<close>

definition is_space :: "char \<Rightarrow> bool" where
  "is_space c = (c \<in> set [CHR 0x09, CHR 0x0A, CHR 0x0B, CHR 0x0C, CHR 0x0D,
                          CHR 0x1C, CHR 0x1D, CHR 0x1E, CHR 0x1F, CHR 0x20])"

fun split_acc :: "string \<Rightarrow> string \<Rightarrow> string list" where
  "split_acc cur [] = (if cur = [] then [] else [cur])"
| "split_acc cur (c # cs) =
     (if is_space c then (if cur = [] then split_acc [] cs else cur # split_acc [] cs)
      else split_acc (cur @ [c]) cs)"

definition py_split :: "string \<Rightarrow> string list" where
  "py_split s = split_acc [] s"

section \<open>Rule-based fallback scoring\<close>

text \<open>\<^verbatim>\<open>LLaMAAnalysisService._fallback_evaluation\<close> (services/llama_analysis.py).\<close>

definition basic_note :: string where
  "basic_note = ''Basic evaluation - please provide more text for detailed analysis''"

definition fallback_evaluation :: "string \<Rightarrow> pydict" where
  "fallback_evaluation transcript =
     (let words = py_split transcript;
          word_count = length words;
          base_score = (if word_count < 2 then (1::real)
                        else if word_count < 5 then 3
                        else if word_count < 10 then 8
                        else 15)
      in [(''grammar_score'', PNum base_score),
          (''vocabulary_score'', PNum base_score),
          (''fluency_score'', PNum base_score),
          (''comprehension_score'', PNum base_score),
          (''overall_score'', PNum (base_score * 4)),
          (''proficiency_level'', PStr (if word_count < 5 then ''A1'' else ''B1'')),
          (''detailed_feedback'', PDict
             [(''grammar'', PStr basic_note),
              (''vocabulary'', PStr basic_note),
              (''fluency'', PStr basic_note),
              (''comprehension'', PStr basic_note),
              (''strengths'', PList [PStr ''Attempted communication'']),
              (''improvements'', PList [PStr ''Provide more complete sentences'']),
              (''recommendations'', PList [PStr ''Try writing longer, more detailed responses''])]),
          (''evaluation_method'', PStr ''Fallback'')])"

section \<open>LLM-based evaluation\<close>

text \<open>
  A \<^verbatim>\<open>try: body except Exception: handler\<close> block: the handler runs on any exception of the
  body. The second form is \<^verbatim>\<open>except json.JSONDecodeError\<close>: only that exception is caught,
  any other one propagates.
\<close>

definition try_except :: "error + 'a \<Rightarrow> (error \<Rightarrow> error + 'a) \<Rightarrow> error + 'a" where
  "try_except body handler = (case body of Inl e \<Rightarrow> handler e | Inr x \<Rightarrow> Inr x)"

definition except_json_decode :: "error + 'a \<Rightarrow> (error + 'a) \<Rightarrow> error + 'a" where
  "except_json_decode body handler =
     try_except body (\<lambda>e. if e = JSONDecodeError then handler else Inl e)"

text \<open>
  Comparison of an object with an \<^verbatim>\<open>int\<close> constant \<open>c\<close>, as \<^verbatim>\<open>min(c, v)\<close> and \<^verbatim>\<open>max(c, v)\<close>
  evaluate it: \<^verbatim>\<open>v < c\<close> and \<^verbatim>\<open>v > c\<close>. \<^verbatim>\<open>True\<close> and \<^verbatim>\<open>False\<close> compare as 1 and 0, every
  comparison with \<^verbatim>\<open>NaN\<close> is false, and an object that is not a number raises \<^verbatim>\<open>TypeError\<close>.
\<close>

fun py_lt_num :: "pyval \<Rightarrow> real \<Rightarrow> error + bool" where
  "py_lt_num (PNum x) c = Inr (x < c)"
| "py_lt_num (PBool b) c = Inr (of_bool b < c)"
| "py_lt_num PNaN c = Inr False"
| "py_lt_num PInf c = Inr False"
| "py_lt_num PNegInf c = Inr True"
| "py_lt_num _ c = Inl TypeError"

fun py_gt_num :: "pyval \<Rightarrow> real \<Rightarrow> error + bool" where
  "py_gt_num (PNum x) c = Inr (x > c)"
| "py_gt_num (PBool b) c = Inr (of_bool b > c)"
| "py_gt_num PNaN c = Inr False"
| "py_gt_num PInf c = Inr True"
| "py_gt_num PNegInf c = Inr False"
| "py_gt_num _ c = Inl TypeError"

text \<open>\<^verbatim>\<open>min(c, v)\<close> keeps its first argument unless the second is smaller; \<^verbatim>\<open>max(c, v)\<close> keeps
  it unless the second is greater.\<close>

definition py_min_num :: "real \<Rightarrow> pyval \<Rightarrow> error + pyval" where
  "py_min_num c v = bind_e (py_lt_num v c) (\<lambda>lt. Inr (if lt then v else PNum c))"

definition py_max_num :: "real \<Rightarrow> pyval \<Rightarrow> error + pyval" where
  "py_max_num c v = bind_e (py_gt_num v c) (\<lambda>gt. Inr (if gt then v else PNum c))"

text \<open>\<^verbatim>\<open>max(0, min(25, v))\<close>.\<close>

definition clamp_score :: "pyval \<Rightarrow> error + pyval" where
  "clamp_score v = bind_e (py_min_num 25 v) (py_max_num 0)"

text \<open>The number a finite numeric object stands for (\<^verbatim>\<open>True\<close> is 1, \<^verbatim>\<open>False\<close> is 0).\<close>

fun num_val :: "pyval \<Rightarrow> real option" where
  "num_val (PNum x) = Some x"
| "num_val (PBool b) = Some (of_bool b)"
| "num_val _ = None"

text \<open>\<^verbatim>\<open>a + b\<close> on numbers, with the IEEE rules for the non-finite floats; \<^verbatim>\<open>TypeError\<close>
  when an operand is not a number.\<close>

definition is_number :: "pyval \<Rightarrow> bool" where
  "is_number v = (case v of PNum _ \<Rightarrow> True | PBool _ \<Rightarrow> True | PNaN \<Rightarrow> True
                  | PInf \<Rightarrow> True | PNegInf \<Rightarrow> True | _ \<Rightarrow> False)"

definition py_add :: "pyval \<Rightarrow> pyval \<Rightarrow> error + pyval" where
  "py_add a b =
     (if \<not> is_number a \<or> \<not> is_number b then Inl TypeError
      else case (num_val a, num_val b) of
             (Some x, Some y) \<Rightarrow> Inr (PNum (x + y))
           | _ \<Rightarrow> (if a = PNaN \<or> b = PNaN then Inr PNaN
                   else if (a = PInf \<and> b = PNegInf) \<or> (a = PNegInf \<and> b = PInf) then Inr PNaN
                   else if a = PInf \<or> b = PInf then Inr PInf
                   else Inr PNegInf))"

text \<open>
  \<^verbatim>\<open>LLaMAAnalysisService._llm_based_evaluation\<close>. The language model and \<^verbatim>\<open>json.loads\<close> are
  outside the repository: \<open>generated\<close> is what \<^verbatim>\<open>await self._generate_llama_response(...)\<close>
  did (it raised, or it returned a text), and \<open>json_loads\<close> is the parser. \<open>llm_scores\<close> is
  the part of the inner \<^verbatim>\<open>try\<close> block after \<^verbatim>\<open>json.loads\<close>.
\<close>

definition llm_scores :: "pyval \<Rightarrow> error + pydict" where
  "llm_scores evaluation_data =
     bind_e (py_get evaluation_data ''grammar_score'' (PNum 0)) (\<lambda>g0.
     bind_e (clamp_score g0) (\<lambda>grammar_score.
     bind_e (py_get evaluation_data ''vocabulary_score'' (PNum 0)) (\<lambda>v0.
     bind_e (clamp_score v0) (\<lambda>vocabulary_score.
     bind_e (py_get evaluation_data ''fluency_score'' (PNum 0)) (\<lambda>f0.
     bind_e (clamp_score f0) (\<lambda>fluency_score.
     bind_e (py_get evaluation_data ''comprehension_score'' (PNum 0)) (\<lambda>c0.
     bind_e (clamp_score c0) (\<lambda>comprehension_score.
     bind_e (py_add grammar_score vocabulary_score) (\<lambda>s1.
     bind_e (py_add s1 fluency_score) (\<lambda>s2.
     bind_e (py_add s2 comprehension_score) (\<lambda>overall_score.
     bind_e (py_get evaluation_data ''proficiency_level'' (PStr ''A1'')) (\<lambda>level.
     bind_e (py_get evaluation_data ''detailed_feedback'' (PDict [])) (\<lambda>feedback.
       Inr [(''grammar_score'', grammar_score),
            (''vocabulary_score'', vocabulary_score),
            (''fluency_score'', fluency_score),
            (''comprehension_score'', comprehension_score),
            (''overall_score'', overall_score),
            (''proficiency_level'', level),
            (''detailed_feedback'', feedback),
            (''evaluation_method'', PStr ''LLM-based'')])))))))))))))"

definition llm_based_evaluation ::
  "(string \<Rightarrow> error + pyval) \<Rightarrow> error + string \<Rightarrow> string \<Rightarrow> string option \<Rightarrow> error + pydict" where
  "llm_based_evaluation json_loads generated transcript ctx =
     try_except
       (bind_e generated (\<lambda>response.
          except_json_decode
            (bind_e (json_loads response) llm_scores)
            (Inr (fallback_evaluation transcript))))
       (\<lambda>e. Inr (fallback_evaluation transcript))"

text \<open>The dataclass \<^verbatim>\<open>AnalysisResult\<close>; a dataclass does not check the types of its fields.\<close>

record AnalysisResult =
  overall_score :: pyval
  grammar_score :: pyval
  vocabulary_score :: pyval
  fluency_score :: pyval
  pronunciation_score :: pyval
  comprehension_score :: pyval
  proficiency_level :: pyval
  strengths :: pyval
  areas_for_improvement :: pyval
  recommendations :: pyval
  grammar_errors :: pyval
  vocabulary_analysis :: pyval
  detailed_feedback :: pyval

text \<open>
  \<^verbatim>\<open>LLaMAAnalysisService.analyze_conversation\<close>: \<open>result_of_evaluation\<close> is the \<^verbatim>\<open>try\<close> block
  after the evaluation, \<open>failed_analysis\<close> is the result the \<^verbatim>\<open>except Exception\<close> branch builds.
\<close>

definition result_of_evaluation :: "pydict \<Rightarrow> error + AnalysisResult" where
  "result_of_evaluation evaluation_result =
     bind_e (dict_item evaluation_result ''overall_score'') (\<lambda>overall.
     bind_e (dict_item evaluation_result ''grammar_score'') (\<lambda>grammar.
     bind_e (dict_item evaluation_result ''vocabulary_score'') (\<lambda>vocabulary.
     bind_e (dict_item evaluation_result ''fluency_score'') (\<lambda>fluency.
     bind_e (dict_item evaluation_result ''comprehension_score'') (\<lambda>comprehension.
     bind_e (dict_item evaluation_result ''proficiency_level'') (\<lambda>level.
     bind_e (dict_item evaluation_result ''detailed_feedback'') (\<lambda>feedback.
     bind_e (py_get feedback ''strengths'' (PList [PStr ''Communication attempted''])) (\<lambda>str.
     bind_e (py_get feedback ''improvements'' (PList [PStr ''Continue practicing''])) (\<lambda>imp.
     bind_e (py_get feedback ''recommendations'' (PList [PStr ''Keep learning''])) (\<lambda>recs.
     bind_e (py_get feedback ''grammar'' (PStr ''Grammar analysis completed'')) (\<lambda>gram.
     bind_e (py_get feedback ''vocabulary'' (PStr ''Vocabulary analysis completed'')) (\<lambda>voc.
       Inr \<lparr> overall_score = overall,
             grammar_score = grammar,
             vocabulary_score = vocabulary,
             fluency_score = fluency,
             pronunciation_score = PNum 0,
             comprehension_score = comprehension,
             proficiency_level = level,
             strengths = str,
             areas_for_improvement = imp,
             recommendations = recs,
             grammar_errors = PList [PDict [(''feedback'', gram)]],
             vocabulary_analysis = PList [PDict [(''feedback'', voc)]],
             detailed_feedback = feedback \<rparr>))))))))))))"

definition failed_analysis :: AnalysisResult where
  "failed_analysis =
     \<lparr> overall_score = PNum 5,
       grammar_score = PNum 1,
       vocabulary_score = PNum 1,
       fluency_score = PNum 1,
       pronunciation_score = PNum 0,
       comprehension_score = PNum 2,
       proficiency_level = PStr ''A1'',
       strengths = PList [PStr ''Attempted communication''],
       areas_for_improvement = PList [PStr ''Try again with a complete sentence''],
       recommendations = PList [PStr ''Check your internet connection''],
       grammar_errors = PList [PDict [(''feedback'', PStr ''Analysis failed - please try again'')]],
       vocabulary_analysis = PList [PDict [(''feedback'', PStr ''Analysis failed - please try again'')]],
       detailed_feedback = PDict [(''error'', PStr ''Analysis failed'')] \<rparr>"

definition analyze_conversation ::
  "(string \<Rightarrow> error + pyval) \<Rightarrow> error + string \<Rightarrow> string \<Rightarrow> string option \<Rightarrow> real option
     \<Rightarrow> error + AnalysisResult" where
  "analyze_conversation json_loads generated transcript ctx audio_duration =
     try_except
       (bind_e (llm_based_evaluation json_loads generated transcript ctx) result_of_evaluation)
       (\<lambda>e. Inr failed_analysis)"

section \<open>Sample replies of the language model\<close>

text \<open>
  \<open>json_sample\<close> is \<^verbatim>\<open>json.loads\<close> on the replies that the examples below use: it parses the
  three JSON texts listed here as \<^verbatim>\<open>json.loads\<close> does, and every other text of the examples
  is not JSON and gives \<^verbatim>\<open>JSONDecodeError\<close>.
\<close>

definition json_sample :: "string \<Rightarrow> error + pyval" where
  "json_sample s =
     (if s = ''{\"detailed_feedback\": \"good\"}''
      then Inr (PDict [(''detailed_feedback'', PStr ''good'')])
      else if s = ''{\"grammar_score\": 30, \"vocabulary_score\": 18.5, \"fluency_score\": -2, \"comprehension_score\": 20}''
      then Inr (PDict [(''grammar_score'', PNum 30), (''vocabulary_score'', PNum 18.5),
                       (''fluency_score'', PNum (- 2)), (''comprehension_score'', PNum 20)])
      else if s = ''{\"grammar_score\": 25, \"vocabulary_score\": 25, \"fluency_score\": 25, \"comprehension_score\": 25}''
      then Inr (PDict [(''grammar_score'', PNum 25), (''vocabulary_score'', PNum 25),
                       (''fluency_score'', PNum 25), (''comprehension_score'', PNum 25)])
      else Inl JSONDecodeError)"

section \<open>Heuristic vocabulary and comprehension scoring\<close>

text \<open>\<^verbatim>\<open>str.lower()\<close> and \<^verbatim>\<open>str.isalpha()\<close> on ASCII characters, \<^verbatim>\<open>str.split('.')\<close> on one
  separator character (always at least one piece), and \<^verbatim>\<open>str(n)\<close> for a natural number.\<close>

definition lower_char :: "char \<Rightarrow> char" where
  "lower_char c =
     (case map_of (zip ''ABCDEFGHIJKLMNOPQRSTUVWXYZ'' ''abcdefghijklmnopqrstuvwxyz'') c of
        None \<Rightarrow> c | Some l \<Rightarrow> l)"

definition upper_char :: "char \<Rightarrow> char" where
  "upper_char c =
     (case map_of (zip ''abcdefghijklmnopqrstuvwxyz'' ''ABCDEFGHIJKLMNOPQRSTUVWXYZ'') c of
        None \<Rightarrow> c | Some u \<Rightarrow> u)"

definition py_lower :: "string \<Rightarrow> string" where
  "py_lower s = map lower_char s"

definition py_upper :: "string \<Rightarrow> string" where
  "py_upper s = map upper_char s"

definition is_alpha :: "char \<Rightarrow> bool" where
  "is_alpha c = (c \<in> set ''abcdefghijklmnopqrstuvwxyzABCDEFGHIJKLMNOPQRSTUVWXYZ'')"

fun split_on :: "char \<Rightarrow> string \<Rightarrow> string list" where
  "split_on sep [] = [[]]"
| "split_on sep (c # cs) =
     (if c = sep then [] # split_on sep cs
      else (case split_on sep cs of [] \<Rightarrow> [[c]] | p # ps \<Rightarrow> (c # p) # ps))"

definition digit_char :: "nat \<Rightarrow> char" where
  "digit_char d = ''0123456789'' ! d"

fun str_nat :: "nat \<Rightarrow> string" where
  "str_nat n = (if n < 10 then [digit_char n] else str_nat (n div 10) @ [digit_char (n mod 10)])"

text \<open>\<^verbatim>\<open>', '.join(xs)\<close>.\<close>

fun join_comma :: "string list \<Rightarrow> string" where
  "join_comma [] = []"
| "join_comma [x] = x"
| "join_comma (x # y # ys) = x @ '', '' @ join_comma (y # ys)"

text \<open>The two word tables of \<^verbatim>\<open>_analyze_vocabulary\<close>, in the order of the source (the set
  literal \<^verbatim>\<open>common_words\<close> is only tested for membership).\<close>

definition common_words :: "string list" where
  "common_words =
     [''the'', ''a'', ''an'', ''and'', ''or'', ''but'', ''in'', ''on'', ''at'', ''to'', ''for'',
      ''of'', ''with'', ''by'', ''is'', ''are'', ''was'', ''were'', ''be'', ''been'', ''being'',
      ''have'', ''has'', ''had'', ''do'', ''does'', ''did'', ''will'', ''would'', ''could'',
      ''should'', ''may'', ''might'', ''can'', ''must'', ''shall'', ''i'', ''you'', ''he'',
      ''she'', ''it'', ''we'', ''they'', ''me'', ''him'', ''her'', ''us'', ''them'', ''this'',
      ''that'', ''these'', ''those'', ''my'', ''your'', ''his'', ''her'', ''its'', ''our'',
      ''their'', ''hello'', ''hi'', ''how'', ''are'', ''you'', ''fine'', ''good'', ''bad'',
      ''yes'', ''no'', ''thank'', ''thanks'', ''please'', ''sorry'', ''excuse'', ''name'',
      ''what'', ''where'', ''when'', ''why'', ''who'', ''which'', ''go'', ''come'', ''see'',
      ''look'', ''hear'', ''listen'', ''speak'', ''talk'', ''say'', ''tell'', ''know'',
      ''think'', ''believe'', ''want'', ''need'', ''like'', ''love'', ''hate'', ''feel'',
      ''make'', ''take'', ''give'', ''get'', ''put'', ''find'', ''work'', ''play'', ''eat'',
      ''drink'', ''sleep'', ''walk'', ''run'', ''sit'', ''stand'', ''open'', ''close'',
      ''start'', ''stop'', ''help'', ''time'', ''day'', ''night'', ''morning'', ''evening'',
      ''week'', ''month'', ''year'', ''today'', ''tomorrow'', ''yesterday'', ''now'', ''then'',
      ''here'', ''there'', ''up'', ''down'', ''left'', ''right'', ''front'', ''back'', ''big'',
      ''small'', ''large'', ''little'', ''old'', ''new'', ''young'', ''hot'', ''cold'', ''warm'',
      ''cool'', ''fast'', ''slow'', ''quick'', ''easy'', ''hard'', ''difficult'', ''simple'',
      ''complex'', ''important'', ''beautiful'', ''ugly'', ''nice'', ''great'', ''wonderful'',
      ''terrible'', ''excellent'', ''perfect'', ''happy'', ''sad'', ''angry'', ''excited'',
      ''nervous'', ''calm'', ''tired'', ''busy'', ''free'', ''ready'', ''sure'', ''certain'',
      ''possible'', ''impossible'', ''necessary'', ''enough'', ''too'', ''very'', ''quite'',
      ''really'', ''actually'', ''finally'', ''suddenly'', ''usually'', ''always'', ''never'',
      ''sometimes'', ''often'', ''rarely'', ''almost'', ''nearly'', ''exactly'', ''about'',
      ''around'', ''between'', ''among'', ''through'', ''across'', ''over'', ''under'',
      ''above'', ''below'', ''inside'', ''outside'', ''near'', ''far'', ''first'', ''second'',
      ''third'', ''last'', ''next'', ''previous'', ''other'', ''another'', ''same'',
      ''different'', ''each'', ''every'', ''all'', ''some'', ''many'', ''much'', ''few'',
      ''little'', ''more'', ''most'', ''less'', ''least'', ''one'', ''two'', ''three'', ''four'',
      ''five'', ''six'', ''seven'', ''eight'', ''nine'', ''ten'', ''hundred'', ''thousand'',
      ''million'', ''billion'', ''number'', ''amount'', ''quantity'', ''size'', ''length'',
      ''width'', ''height'', ''weight'', ''price'', ''cost'', ''money'', ''dollar'', ''cent'',
      ''euro'', ''pound'', ''house'', ''home'', ''room'', ''door'', ''window'', ''wall'',
      ''floor'', ''ceiling'', ''bed'', ''chair'', ''table'', ''car'', ''bus'', ''train'',
      ''plane'', ''boat'', ''bike'', ''bicycle'', ''motorcycle'', ''truck'', ''taxi'', ''food'',
      ''water'', ''bread'', ''meat'', ''fish'', ''chicken'', ''beef'', ''pork'', ''vegetable'',
      ''fruit'', ''apple'', ''banana'', ''orange'', ''grape'', ''strawberry'', ''milk'',
      ''coffee'', ''tea'', ''juice'', ''beer'', ''wine'', ''cake'', ''cookie'', ''candy'',
      ''chocolate'', ''ice'', ''cream'', ''sugar'', ''salt'', ''pepper'', ''family'', ''mother'',
      ''father'', ''parent'', ''child'', ''son'', ''daughter'', ''brother'', ''sister'',
      ''grandmother'', ''grandfather'', ''uncle'', ''aunt'', ''cousin'', ''friend'',
      ''neighbor'', ''teacher'', ''student'', ''doctor'', ''nurse'', ''police'', ''firefighter'',
      ''engineer'', ''lawyer'', ''artist'', ''musician'', ''singer'', ''dancer'', ''actor'',
      ''writer'', ''journalist'', ''photographer'', ''cook'', ''waiter'', ''driver'', ''pilot'',
      ''sailor'', ''farmer'', ''worker'', ''manager'', ''boss'', ''employee'', ''company'',
      ''business'', ''office'', ''factory'', ''hospital'', ''school'', ''university'',
      ''library'', ''museum'', ''theater'', ''cinema'', ''restaurant'', ''hotel'', ''shop'',
      ''store'', ''market'', ''bank'', ''post'', ''office'', ''station'', ''airport'', ''park'',
      ''garden'', ''beach'', ''mountain'', ''river'', ''lake'', ''ocean'', ''sea'', ''forest'',
      ''desert'', ''city'', ''town'', ''village'', ''country'', ''world'', ''earth'', ''sky'',
      ''sun'', ''moon'', ''star'', ''cloud'', ''rain'', ''snow'', ''wind'', ''storm'',
      ''weather'', ''spring'', ''summer'', ''autumn'', ''winter'', ''season'', ''temperature'',
      ''climate'', ''nature'', ''animal'', ''dog'', ''cat'', ''bird'', ''fish'', ''horse'',
      ''cow'', ''pig'', ''sheep'', ''chicken'', ''duck'', ''elephant'', ''lion'', ''tiger'',
      ''bear'', ''wolf'', ''fox'', ''rabbit'', ''mouse'', ''snake'', ''spider'', ''tree'',
      ''flower'', ''grass'', ''leaf'', ''root'', ''branch'', ''fruit'', ''seed'', ''plant'',
      ''garden'', ''book'', ''page'', ''story'', ''novel'', ''magazine'', ''newspaper'',
      ''letter'', ''email'', ''message'', ''phone'', ''computer'', ''internet'', ''website'',
      ''television'', ''radio'', ''music'', ''song'', ''movie'', ''game'', ''sport'',
      ''football'', ''basketball'', ''tennis'', ''golf'', ''swimming'', ''running'', ''cycling'',
      ''dancing'', ''singing'', ''reading'', ''writing'', ''drawing'', ''painting'',
      ''photography'', ''cooking'', ''shopping'', ''traveling'', ''vacation'', ''holiday'',
      ''party'', ''celebration'', ''birthday'', ''wedding'', ''funeral'', ''meeting'',
      ''conference'', ''interview'', ''presentation'', ''speech'', ''lecture'', ''class'',
      ''lesson'', ''homework'', ''exam'', ''test'', ''grade'', ''score'', ''result'',
      ''success'', ''failure'', ''problem'', ''solution'', ''question'', ''answer'', ''idea'',
      ''opinion'', ''fact'', ''truth'', ''lie'', ''secret'', ''mystery'', ''adventure'',
      ''journey'', ''trip'', ''visit'', ''tour'', ''guide'', ''map'', ''direction'', ''way'',
      ''path'', ''road'', ''street'', ''address'', ''location'', ''place'', ''position'',
      ''job'', ''career'', ''profession'', ''work'', ''task'', ''project'', ''plan'', ''goal'',
      ''dream'', ''hope'', ''wish'', ''desire'', ''choice'', ''decision'', ''option'',
      ''possibility'', ''chance'', ''opportunity'', ''risk'', ''danger'', ''safety'',
      ''security'', ''protection'', ''help'', ''support'', ''assistance'', ''advice'',
      ''suggestion'', ''recommendation'', ''instruction'', ''rule'', ''law'', ''regulation'',
      ''policy'', ''agreement'', ''contract'', ''deal'', ''bargain'', ''discount'', ''sale'',
      ''offer'', ''request'', ''demand'', ''order'', ''command'', ''permission'', ''allowance'',
      ''freedom'', ''right'', ''responsibility'', ''duty'', ''obligation'', ''promise'',
      ''commitment'', ''loyalty'', ''trust'', ''honesty'', ''integrity'', ''character'',
      ''personality'', ''behavior'', ''attitude'', ''mood'', ''emotion'', ''feeling'',
      ''sensation'', ''experience'', ''memory'', ''thought'', ''mind'', ''brain'', ''heart'',
      ''soul'', ''spirit'', ''life'', ''death'', ''birth'', ''age'', ''health'', ''illness'',
      ''disease'', ''medicine'', ''drug'', ''treatment'', ''therapy'', ''cure'', ''recovery'',
      ''healing'', ''pain'', ''injury'', ''wound'', ''cut'', ''bruise'', ''burn'', ''fever'',
      ''cold'', ''flu'', ''headache'', ''stomach'', ''tooth'', ''eye'', ''ear'', ''nose'',
      ''mouth'', ''hand'', ''finger'', ''arm'', ''leg'', ''foot'', ''head'', ''face'', ''hair'',
      ''skin'', ''blood'', ''bone'', ''muscle'', ''nerve'', ''organ'', ''body'', ''human'',
      ''person'', ''people'', ''man'', ''woman'', ''boy'', ''girl'', ''baby'', ''adult'',
      ''teenager'', ''elderly'']"

definition advanced_words :: "string list" where
  "advanced_words =
     [''sophisticated'', ''comprehensive'', ''implementation'', ''paradigm'', ''methodology'',
      ''contemporary'', ''multifaceted'', ''stakeholders'', ''prioritize'', ''simultaneously'',
      ''fundamentally'', ''transformed'', ''revolution'', ''artificial'', ''intelligence'',
      ''healthcare'', ''systems'', ''regulatory'', ''frameworks'', ''nevertheless'',
      ''outweigh'', ''inherent'', ''properly'', ''managed'', ''consequently'', ''reevaluation'',
      ''traditional'', ''embracing'', ''technological'', ''innovation'', ''ethical'',
      ''considerations'', ''implications'', ''necessitate'', ''comprehensive'', ''paradigm'',
      ''methodology'', ''contemporary'', ''multifaceted'', ''stakeholders'', ''prioritize'',
      ''simultaneously'', ''fundamentally'', ''transformed'', ''revolution'', ''artificial'',
      ''intelligence'', ''healthcare'', ''systems'', ''regulatory'', ''frameworks'',
      ''nevertheless'', ''outweigh'', ''inherent'', ''properly'', ''managed'', ''consequently'',
      ''reevaluation'', ''traditional'', ''embracing'', ''technological'', ''innovation'',
      ''ethical'', ''considerations'', ''implications'', ''necessitate'', ''comprehensive'']"

text \<open>
  \<^verbatim>\<open>LLaMAAnalysisService._analyze_vocabulary\<close>. No statement of its \<^verbatim>\<open>try\<close> block raises on a
  string (the division is by the number of words, which is positive there), so the
  \<^verbatim>\<open>except\<close> branch is not reached and the function is total.
\<close>

definition analyze_vocabulary :: "string \<Rightarrow> pydict" where
  "analyze_vocabulary text =
     (let words = py_split (py_lower text) in
      if words = [] then [(''score'', PNum 0), (''feedback'', PStr ''No vocabulary to analyze'')]
      else
       let n = length words;
           misspelled_words =
             filter (\<lambda>clean_word. clean_word \<noteq> [] \<and> clean_word \<notin> set common_words
                                    \<and> length clean_word > 1)
                    (map (filter is_alpha) words);
           spelling_errors = length misspelled_words;
           base_score = min 10 (real n * 0.4);
           spelling_penalty = real spelling_errors * 2.5;
           advanced_count = length (filter (\<lambda>word. word \<in> set advanced_words) words);
           advanced_bonus = min 6 (real advanced_count * 1.5);
           unique_words = length (remdups words);
           diversity_bonus = min 4 (real unique_words * 0.15);
           length_penalty = (if n < 2 then (15::real) else if n < 3 then 12
                             else if n < 5 then 8 else if n < 10 then 4 else 0);
           avg_word_length = real (sum_list (map length words)) / real n;
           sophistication_bonus = min 2 ((avg_word_length - 4) * 0.5);
           total_score = base_score + advanced_bonus + diversity_bonus + sophistication_bonus
                         - spelling_penalty - length_penalty;
           min_score = (if n < 2 then max 0.1 (real n * 0.1)
                        else if n < 3 then max 0.3 (real n * 0.2)
                        else if n < 5 then max 0.5 (real n * 0.3)
                        else max 1 (real n * 0.15));
           final_score = max min_score (min 20 total_score);
           feedback = ''Vocabulary: '' @ str_nat n @ '' words, '' @ str_nat unique_words
                      @ '' unique, '' @ str_nat advanced_count @ '' advanced, ''
                      @ str_nat spelling_errors @ '' spelling errors''
                      @ (if misspelled_words \<noteq> []
                         then '' (misspelled: '' @ join_comma (take 3 misspelled_words) @ '')''
                         else [])
       in [(''score'', PNum final_score), (''feedback'', PStr feedback)])"

text \<open>\<^verbatim>\<open>LLaMAAnalysisService._enhanced_comprehension_analysis\<close>; \<open>sublist w t\<close> is Python's
  \<^verbatim>\<open>w in t\<close> on strings.\<close>

definition transition_words :: "string list" where
  "transition_words = [''however'', ''therefore'', ''moreover'', ''furthermore'', ''consequently'',
     ''meanwhile'', ''nevertheless'', ''also'', ''additionally'', ''furthermore'']"

definition complex_conjunctions :: "string list" where
  "complex_conjunctions = [''although'', ''despite'', ''whereas'', ''while'', ''since'', ''because'',
     ''if'', ''when'', ''after'', ''before'']"

definition has_transition :: "string \<Rightarrow> bool" where
  "has_transition text = list_ex (\<lambda>word. sublist (py_lower word) (py_lower text)) transition_words"

definition has_conjunction :: "string \<Rightarrow> bool" where
  "has_conjunction text =
     list_ex (\<lambda>word. sublist (py_lower word) (py_lower text)) complex_conjunctions"

definition has_relative :: "string \<Rightarrow> bool" where
  "has_relative text = (sublist ''which'' (py_lower text) \<or> sublist ''that'' (py_lower text)
                        \<or> sublist ''who'' (py_lower text))"

definition enhanced_comprehension_analysis :: "string \<Rightarrow> string option \<Rightarrow> real" where
  "enhanced_comprehension_analysis text ctx =
     (let words = py_split text;
          word_count = length words
      in if word_count = 0 then 0
         else
          let score1 = (if word_count \<ge> 30 then (6::real)
                        else if word_count \<ge> 20 then 5
                        else if word_count \<ge> 15 then 4
                        else if word_count \<ge> 10 then 3
                        else if word_count \<ge> 5 then 0.5
                        else if word_count \<ge> 3 then 0.2
                        else if word_count \<ge> 2 then 0.1
                        else 0.05);
              sentences = split_on CHR ''.'' text;
              avg_sentence_length = (if sentences \<noteq> []
                                     then real word_count / real (length sentences) else 0);
              score2 = score1 + (if avg_sentence_length \<ge> 12 then 6
                                 else if avg_sentence_length \<ge> 8 then 5
                                 else if avg_sentence_length \<ge> 6 then 4
                                 else if avg_sentence_length \<ge> 4 then 3
                                 else 2);
              complex_words = filter (\<lambda>word. length word > 5) words;
              sophistication_ratio = real (length complex_words) / real word_count;
              score3 = score2 + (if sophistication_ratio \<ge> 0.2 then 6
                                 else if sophistication_ratio \<ge> 0.15 then 5
                                 else if sophistication_ratio \<ge> 0.1 then 4
                                 else if sophistication_ratio \<ge> 0.05 then 3
                                 else 2);
              coherence_score = (if has_transition text then (3::real) else 0)
                                + (if has_conjunction text then 2 else 0)
                                + (if has_relative text then 1 else 0);
              score4 = score3 + min 6 coherence_score;
              min_score = min 6 (real word_count / 3)
          in min 20 (max min_score score4))"

text \<open>The statistics of a text that the comprehension heuristic reads: the number of words,
  of pieces between full stops, of words longer than 5 characters, and the three coherence
  indicators.\<close>

definition text_statistics :: "string \<Rightarrow> nat \<times> nat \<times> nat \<times> bool \<times> bool \<times> bool" where
  "text_statistics text =
     (length (py_split text),
      length (split_on CHR ''.'' text),
      length (filter (\<lambda>word. length word > 5) (py_split text)),
      has_transition text, has_conjunction text, has_relative text)"

section \<open>GPT analysis service\<close>

text \<open>
  The regular expressions of \<^verbatim>\<open>services/gpt_analysis.py\<close>, each as the function that
  recognises it. \<open>re_search m s\<close> is \<^verbatim>\<open>re.search\<close>: the match at the leftmost position of
  \<open>s\<close> where the pattern \<open>m\<close> matches. In every pattern below a greedy repetition is
  followed by characters outside its class, so the greedy choice is the only one and the
  matcher needs no backtracking.
\<close>

fun re_search :: "(string \<Rightarrow> 'a option) \<Rightarrow> string \<Rightarrow> 'a option" where
  "re_search m [] = m []"
| "re_search m (c # cs) = (case m (c # cs) of Some r \<Rightarrow> Some r | None \<Rightarrow> re_search m cs)"

text \<open>A literal under \<^verbatim>\<open>re.IGNORECASE\<close> at the start of the text; the result is the rest.\<close>

fun match_ci :: "string \<Rightarrow> string \<Rightarrow> string option" where
  "match_ci [] s = Some s"
| "match_ci (l # ls) [] = None"
| "match_ci (l # ls) (c # cs) = (if lower_char c = lower_char l then match_ci ls cs else None)"

definition is_digit :: "char \<Rightarrow> bool" where
  "is_digit c = (c \<in> set ''0123456789'')"

text \<open>\<^verbatim>\<open>(\d+(?:\.\d+)?)\<close> at the start of the text: the text of the group.\<close>

definition match_number :: "string \<Rightarrow> string option" where
  "match_number s =
     (let ds = takeWhile is_digit s; r = dropWhile is_digit s
      in if ds = [] then None
         else (case r of
                 [] \<Rightarrow> Some ds
               | c # r' \<Rightarrow> (if c = CHR ''.'' \<and> takeWhile is_digit r' \<noteq> []
                             then Some (ds @ [c] @ takeWhile is_digit r') else Some ds)))"

text \<open>\<^verbatim>\<open>name[_\s]*score[:\s]*(\d+(?:\.\d+)?)\<close> at the start of the text.\<close>

definition match_score_at :: "string \<Rightarrow> string \<Rightarrow> string option" where
  "match_score_at name s =
     (case match_ci name s of
        None \<Rightarrow> None
      | Some r1 \<Rightarrow>
          (case match_ci ''score'' (dropWhile (\<lambda>c. c = CHR ''_'' \<or> is_space c) r1) of
             None \<Rightarrow> None
           | Some r2 \<Rightarrow> match_number (dropWhile (\<lambda>c. c = CHR '':'' \<or> is_space c) r2)))"

text \<open>\<^verbatim>\<open>proficiency[_\s]*level[:\s]*([A-C][1-2])\<close> at the start of the text.\<close>

definition match_level_at :: "string \<Rightarrow> string option" where
  "match_level_at s =
     (case match_ci ''proficiency'' s of
        None \<Rightarrow> None
      | Some r1 \<Rightarrow>
          (case match_ci ''level'' (dropWhile (\<lambda>c. c = CHR ''_'' \<or> is_space c) r1) of
             None \<Rightarrow> None
           | Some r2 \<Rightarrow>
               (case dropWhile (\<lambda>c. c = CHR '':'' \<or> is_space c) r2 of
                  a # b # rest \<Rightarrow> (if lower_char a \<in> set ''abc'' \<and> b \<in> set ''12''
                                    then Some [a, b] else None)
                | _ \<Rightarrow> None)))"

text \<open>\<^verbatim>\<open>float(s)\<close> for a text matched by \<^verbatim>\<open>\d+(?:\.\d+)?\<close>.\<close>

definition digits_to_nat :: "string \<Rightarrow> nat" where
  "digits_to_nat ds = foldl (\<lambda>a c. 10 * a + index_of c ''0123456789'') 0 ds"

definition py_float :: "string \<Rightarrow> real" where
  "py_float s =
     (let ip = takeWhile is_digit s; fp = drop (Suc (length ip)) s
      in real (digits_to_nat ip) + real (digits_to_nat fp) / 10 ^ length fp)"

text \<open>\<^verbatim>\<open>re.search(r'\{.*\}', text, re.DOTALL)\<close>: from the first opening brace to the last
  closing brace after it.\<close>

definition extract_json :: "string \<Rightarrow> string option" where
  "extract_json s =
     (case dropWhile (\<lambda>c. c \<noteq> CHR ''{'') s of
        [] \<Rightarrow> None
      | b # body \<Rightarrow> (if CHR ''}'' \<in> set body
                     then Some (b # rev (dropWhile (\<lambda>c. c \<noteq> CHR ''}'') (rev body)))
                     else None))"

text \<open>\<^verbatim>\<open>GPTAnalysisService._fallback_parse\<close>: \<open>found_scores\<close> is the dictionary \<^verbatim>\<open>scores\<close>
  (a later entry for a key stands before an earlier one).\<close>

definition score_types :: "string list" where
  "score_types = [''grammar'', ''vocabulary'', ''fluency'', ''pronunciation'', ''comprehension'']"

definition found_scores :: "string \<Rightarrow> pydict" where
  "found_scores response_text =
     (let scores0 = (case re_search (match_score_at ''overall'') response_text of
                       Some m \<Rightarrow> [(''overall_score'', PNum (py_float m))] | None \<Rightarrow> []);
          scores1 = foldl (\<lambda>scores score_type.
                             case re_search (match_score_at score_type) response_text of
                               Some m \<Rightarrow> (score_type @ ''_score'', PNum (py_float m)) # scores
                             | None \<Rightarrow> scores)
                          scores0 score_types
      in (case re_search match_level_at response_text of
            Some l \<Rightarrow> (''proficiency_level'', PStr (py_upper l)) # scores1
          | None \<Rightarrow> scores1))"

definition fallback_parse :: "string \<Rightarrow> pydict" where
  "fallback_parse response_text =
     (let scores = found_scores response_text
      in [(''overall_score'', dict_get scores ''overall_score'' (PNum 50.0)),
          (''grammar_score'', dict_get scores ''grammar_score'' (PNum 12.5)),
          (''vocabulary_score'', dict_get scores ''vocabulary_score'' (PNum 10.0)),
          (''fluency_score'', dict_get scores ''fluency_score'' (PNum 10.0)),
          (''pronunciation_score'', dict_get scores ''pronunciation_score'' (PNum 7.5)),
          (''comprehension_score'', dict_get scores ''comprehension_score'' (PNum 10.0)),
          (''proficiency_level'', dict_get scores ''proficiency_level'' (PStr ''B1'')),
          (''strengths'', PList [PStr ''Good communication effort'', PStr ''Clear expression'']),
          (''areas_for_improvement'', PList [PStr ''Continue practicing'', PStr ''Expand vocabulary'']),
          (''recommendations'',
             PList [PStr ''Keep practicing regularly'', PStr ''Read more English texts'']),
          (''detailed_feedback'', PDict
             [(''grammar_notes'', PStr ''Basic grammar structure observed''),
              (''vocabulary_notes'', PStr ''Appropriate word choice''),
              (''fluency_notes'', PStr ''Clear communication''),
              (''pronunciation_notes'', PStr ''Text-based analysis''),
              (''comprehension_notes'', PStr ''Good understanding demonstrated'')]),
          (''grammar_errors'', PList []),
          (''vocabulary_analysis'', PList [])])"

text \<open>\<^verbatim>\<open>GPTAnalysisService._parse_gpt_response\<close>.\<close>

definition parse_gpt_response :: "(string \<Rightarrow> error + pyval) \<Rightarrow> string \<Rightarrow> error + pyval" where
  "parse_gpt_response json_loads response_text =
     except_json_decode
       (case extract_json response_text of
          Some json_str \<Rightarrow> json_loads json_str
        | None \<Rightarrow> Inr (PDict (fallback_parse response_text)))
       (Inr (PDict (fallback_parse response_text)))"

text \<open>
  The service object. \<open>client\<close> is the \<^verbatim>\<open>AsyncOpenAI\<close> client, stood for by the key it was
  made with, and \<open>None\<close> when \<^verbatim>\<open>__init__\<close> made none. \<open>truthy_key\<close> is Python's truth value of
  an \<^verbatim>\<open>Optional[str]\<close>: neither \<^verbatim>\<open>None\<close> nor the empty string.
\<close>

record GPTAnalysisService =
  api_key :: "string option"
  model :: string
  client :: "string option"

definition truthy_key :: "string option \<Rightarrow> bool" where
  "truthy_key k = (case k of None \<Rightarrow> False | Some s \<Rightarrow> s \<noteq> [])"

definition gpt_service_init :: "bool \<Rightarrow> string option \<Rightarrow> string \<Rightarrow> GPTAnalysisService" where
  "gpt_service_init openai_available key m =
     \<lparr> api_key = key, model = m,
       client = (if openai_available \<and> truthy_key key then key else None) \<rparr>"

text \<open>
  \<^verbatim>\<open>GPTAnalysisService.analyze_conversation\<close>; \<^verbatim>\<open>GPTAnalysisResult\<close> has the fields of
  \<^verbatim>\<open>AnalysisResult\<close>. \<open>gpt_reply\<close> is what \<^verbatim>\<open>await self._get_gpt_analysis(prompt)\<close> did. The
  \<^verbatim>\<open>except\<close> branch logs and raises the exception again.
\<close>

type_synonym GPTAnalysisResult = AnalysisResult

definition gpt_analyze_conversation ::
  "GPTAnalysisService \<Rightarrow> (string \<Rightarrow> error + pyval) \<Rightarrow> error + string \<Rightarrow> string \<Rightarrow> string
     \<Rightarrow> real option \<Rightarrow> error + GPTAnalysisResult" where
  "gpt_analyze_conversation svc json_loads gpt_reply transcript ctx audio_duration =
     (if client svc = None
      then Inl (RuntimeError ''GPT client not initialized. Please provide OpenAI API key.'')
      else try_except
        (bind_e gpt_reply (\<lambda>analysis_text.
         bind_e (parse_gpt_response json_loads analysis_text) (\<lambda>analysis_data.
         bind_e (py_get analysis_data ''overall_score'' (PNum 0)) (\<lambda>overall.
         bind_e (py_get analysis_data ''grammar_score'' (PNum 0)) (\<lambda>grammar.
         bind_e (py_get analysis_data ''vocabulary_score'' (PNum 0)) (\<lambda>vocabulary.
         bind_e (py_get analysis_data ''fluency_score'' (PNum 0)) (\<lambda>fluency.
         bind_e (py_get analysis_data ''pronunciation_score'' (PNum 0)) (\<lambda>pronunciation.
         bind_e (py_get analysis_data ''comprehension_score'' (PNum 0)) (\<lambda>comprehension.
         bind_e (py_get analysis_data ''proficiency_level'' (PStr ''A1'')) (\<lambda>level.
         bind_e (py_get analysis_data ''strengths'' (PList [])) (\<lambda>str.
         bind_e (py_get analysis_data ''areas_for_improvement'' (PList [])) (\<lambda>imp.
         bind_e (py_get analysis_data ''recommendations'' (PList [])) (\<lambda>recs.
         bind_e (py_get analysis_data ''detailed_feedback'' (PDict [])) (\<lambda>feedback.
         bind_e (py_get analysis_data ''grammar_errors'' (PList [])) (\<lambda>gerrs.
         bind_e (py_get analysis_data ''vocabulary_analysis'' (PList [])) (\<lambda>voc.
           Inr \<lparr> overall_score = overall,
                 grammar_score = grammar,
                 vocabulary_score = vocabulary,
                 fluency_score = fluency,
                 pronunciation_score = pronunciation,
                 comprehension_score = comprehension,
                 proficiency_level = level,
                 strengths = str,
                 areas_for_improvement = imp,
                 recommendations = recs,
                 grammar_errors = gerrs,
                 vocabulary_analysis = voc,
                 detailed_feedback = feedback \<rparr>))))))))))))))))
        (\<lambda>e. Inl e))"

section \<open>The analysis endpoint\<close>

text \<open>
  \<^verbatim>\<open>test_analyze_conversation\<close> of \<^verbatim>\<open>app/main.py\<close>, the endpoint that picks the service from
  the configuration. \<open>gpt_service\<close> is the service object of the module. The first
  component of the result is the service whose branch ran (the branch logs "Using GPT
  analysis" or "Using LLaMA analysis"); the second is the response, or the
  \<^verbatim>\<open>HTTPException\<close> with status 500 that the handler raises for any exception \<open>e\<close>.
\<close>

record Settings =
  USE_GPT_ANALYSIS :: bool
  OPENAI_API_KEY :: "string option"
  GPT_MODEL :: string

datatype service = GPT | LLaMA

datatype http_error = HTTPException nat error

definition response_of_result :: "AnalysisResult \<Rightarrow> pydict" where
  "response_of_result analysis_result =
     [(''conversation_id'', PStr ''550e8400-e29b-41d4-a716-446655440000''),
      (''overall_score'', overall_score analysis_result),
      (''grammar_score'', grammar_score analysis_result),
      (''vocabulary_score'', vocabulary_score analysis_result),
      (''fluency_score'', fluency_score analysis_result),
      (''pronunciation_score'', pronunciation_score analysis_result),
      (''comprehension_score'', comprehension_score analysis_result),
      (''proficiency_level'', proficiency_level analysis_result),
      (''strengths'', strengths analysis_result),
      (''areas_for_improvement'', areas_for_improvement analysis_result),
      (''recommendations'', recommendations analysis_result),
      (''detailed_feedback'', detailed_feedback analysis_result),
      (''grammar_errors'', grammar_errors analysis_result),
      (''vocabulary_analysis'', vocabulary_analysis analysis_result)]"

definition test_analyze_conversation ::
  "Settings \<Rightarrow> GPTAnalysisService \<Rightarrow> (string \<Rightarrow> error + pyval) \<Rightarrow> error + string \<Rightarrow> error + string
     \<Rightarrow> string \<Rightarrow> string option \<Rightarrow> real option \<Rightarrow> service \<times> (http_error + pydict)" where
  "test_analyze_conversation settings gpt_service json_loads gpt_reply llama_generated
       transcript ctx audio_duration =
     (let use_gpt = (USE_GPT_ANALYSIS settings \<and> truthy_key (OPENAI_API_KEY settings));
          analysis =
            (if use_gpt
             then gpt_analyze_conversation gpt_service json_loads gpt_reply transcript
                    (case ctx of None \<Rightarrow> ''General conversation''
                     | Some c \<Rightarrow> if c = [] then ''General conversation'' else c)
                    audio_duration
             else analyze_conversation json_loads llama_generated transcript ctx audio_duration)
      in (if use_gpt then GPT else LLaMA,
          case analysis of
            Inl e \<Rightarrow> Inl (HTTPException 500 e)
          | Inr analysis_result \<Rightarrow> Inr (response_of_result analysis_result)))"

section \<open>The response schema\<close>

text \<open>
  The bounds \<^verbatim>\<open>AnalysisResponse\<close> (schemas/conversation.py) declares with \<^verbatim>\<open>Field(ge=, le=)\<close>
  for the six scores; a response is built from an analysis result only when they hold.
\<close>

definition score_between :: "real \<Rightarrow> real \<Rightarrow> pyval \<Rightarrow> bool" where
  "score_between lo hi v = (case num_val v of Some x \<Rightarrow> lo \<le> x \<and> x \<le> hi | None \<Rightarrow> False)"

definition analysis_response_bounds :: "AnalysisResult \<Rightarrow> bool" where
  "analysis_response_bounds r =
     (score_between 0 100 (overall_score r)
      \<and> score_between 0 25 (grammar_score r)
      \<and> score_between 0 20 (vocabulary_score r)
      \<and> score_between 0 20 (fluency_score r)
      \<and> score_between 0 15 (pronunciation_score r)
      \<and> score_between 0 20 (comprehension_score r))"

section \<open>Model loading\<close>

text \<open>
  \<^verbatim>\<open>LLaMAAnalysisService._initialize_model\<close> and \<^verbatim>\<open>_load_fallback_model\<close>. The two
  \<^verbatim>\<open>from_pretrained\<close> loaders are outside the repository and are parameters; the result is
  the tokenizer, the model and the name stored in \<^verbatim>\<open>self.model_name\<close>. The default for
  the pad token only changes a field of the tokenizer and is left out.
\<close>

definition load_fallback_model ::
  "(string \<Rightarrow> error + 'tok) \<Rightarrow> (string \<Rightarrow> error + 'mdl) \<Rightarrow> error + 'tok \<times> 'mdl \<times> string" where
  "load_fallback_model load_tokenizer load_model =
     try_except
       (bind_e (load_tokenizer ''gpt2'') (\<lambda>tok.
        bind_e (load_model ''gpt2'') (\<lambda>mdl. Inr (tok, mdl, ''gpt2''))))
       (\<lambda>e. Inl (RuntimeError ''No suitable model could be loaded''))"

definition initialize_model ::
  "(string \<Rightarrow> error + 'tok) \<Rightarrow> (string \<Rightarrow> error + 'mdl) \<Rightarrow> string \<Rightarrow> error + 'tok \<times> 'mdl \<times> string" where
  "initialize_model load_tokenizer load_model model_name =
     try_except
       (bind_e (load_tokenizer model_name) (\<lambda>tok.
        bind_e (load_model model_name) (\<lambda>mdl. Inr (tok, mdl, model_name))))
       (\<lambda>e. load_fallback_model load_tokenizer load_model)"

section \<open>Progress tracking\<close>

text \<open>
  Modelled from the spec: the ORM classes \<^verbatim>\<open>Conversation\<close> and \<^verbatim>\<open>ConversationEvaluation\<close>
  (the module \<^verbatim>\<open>app.models\<close>) and the database behind them. The spec names a relational
  database reached through an ORM and says no more, so the two tables carry exactly the
  columns that the queries of \<^verbatim>\<open>get_user_progress\<close> read, with the prefixes \<open>conv_\<close> and
  \<open>ev_\<close>; identifiers and timestamps are natural numbers.
\<close>

record Conversation =
  conv_id :: nat
  conv_user_id :: nat
  conv_created_at :: nat

record ConversationEvaluation =
  ev_conversation_id :: nat
  ev_overall_score :: real
  ev_grammar_score :: real
  ev_vocabulary_score :: real
  ev_fluency_score :: real
  ev_pronunciation_score :: real
  ev_comprehension_score :: real
  ev_proficiency_level :: string
  ev_created_at :: nat

record Database =
  conversations :: "Conversation list"
  evaluations :: "ConversationEvaluation list"

text \<open>
  \<^verbatim>\<open>ConversationService.get_user_progress\<close> (services/conversation_service.py).
  \<open>fails k\<close> says that the \<open>k\<close>-th \<^verbatim>\<open>db.execute\<close> call of the function (counted from 0)
  raises; a query that does not raise returns its rows.
\<close>

definition db_execute :: "(nat \<Rightarrow> bool) \<Rightarrow> nat \<Rightarrow> 'a \<Rightarrow> error + 'a" where
  "db_execute fails k rows = (if fails k then Inl (OtherException ''database error'') else Inr rows)"

text \<open>The rows of the queries: the user's conversations, and the evaluations joined to the
  user's conversations; \<^verbatim>\<open>order_by(desc(created_at))\<close> puts the newest row first.\<close>

definition user_conversations :: "Database \<Rightarrow> nat \<Rightarrow> Conversation list" where
  "user_conversations db user_id = filter (\<lambda>c. conv_user_id c = user_id) (conversations db)"

definition user_evaluations :: "Database \<Rightarrow> nat \<Rightarrow> ConversationEvaluation list" where
  "user_evaluations db user_id =
     concat (map (\<lambda>e. map (\<lambda>c. e)
                         (filter (\<lambda>c. conv_id c = ev_conversation_id e \<and> conv_user_id c = user_id)
                                 (conversations db)))
                 (evaluations db))"

definition newest_first :: "('a \<Rightarrow> nat) \<Rightarrow> 'a list \<Rightarrow> 'a list" where
  "newest_first created_at rows = rev (sort_key created_at rows)"

text \<open>SQL \<^verbatim>\<open>avg\<close>: \<^verbatim>\<open>NULL\<close> over no rows.\<close>

definition sql_avg :: "real list \<Rightarrow> real option" where
  "sql_avg xs = (if xs = [] then None else Some (sum_list xs / real (length xs)))"

text \<open>\<^verbatim>\<open>.scalar()\<close>: the first column of the first row, \<^verbatim>\<open>None\<close> without a row.\<close>

definition scalar :: "'a list \<Rightarrow> 'a option" where
  "scalar rows = (case rows of [] \<Rightarrow> None | x # _ \<Rightarrow> Some x)"

text \<open>\<^verbatim>\<open>round(x, 2)\<close>: to two decimals, a tie to the even neighbour.\<close>

definition round2 :: "real \<Rightarrow> real" where
  "round2 x =
     (let y = x * 100; f = \<lfloor>y\<rfloor>; d = y - of_int f
      in (if d < 1 / 2 then of_int f
          else if d > 1 / 2 then of_int (f + 1)
          else if even f then of_int f else of_int (f + 1)) / 100)"

record Progress =
  total_conversations :: nat
  average_score :: real
  current_level :: string
  last_conversation_date :: "nat option"
  grammar_trend :: "real list"
  vocabulary_trend :: "real list"
  fluency_trend :: "real list"
  pronunciation_trend :: "real list"
  comprehension_trend :: "real list"

definition default_progress :: Progress where
  "default_progress =
     \<lparr> total_conversations = 0, average_score = 0.0, current_level = ''A1'',
       last_conversation_date = None, grammar_trend = [], vocabulary_trend = [],
       fluency_trend = [], pronunciation_trend = [], comprehension_trend = [] \<rparr>"

definition get_user_progress :: "(nat \<Rightarrow> bool) \<Rightarrow> Database \<Rightarrow> nat \<Rightarrow> error + Progress" where
  "get_user_progress fails db user_id =
     try_except
       (bind_e (db_execute fails 0 [length (user_conversations db user_id)])
          (\<lambda>total_conversations_result.
        bind_e (db_execute fails 1 [sql_avg (map ev_overall_score (user_evaluations db user_id))])
          (\<lambda>avg_score_result.
        bind_e (db_execute fails 2
                  (take 1 (map ev_proficiency_level
                     (newest_first ev_created_at (user_evaluations db user_id)))))
          (\<lambda>latest_evaluation_result.
        bind_e (db_execute fails 3
                  (take 1 (map conv_created_at
                     (newest_first conv_created_at (user_conversations db user_id)))))
          (\<lambda>last_conversation_result.
        bind_e (db_execute fails 4
                  (take 10 (newest_first ev_created_at (user_evaluations db user_id))))
          (\<lambda>trend_data.
           let total = (case scalar total_conversations_result of
                          None \<Rightarrow> 0 | Some n \<Rightarrow> n);
               average = (case scalar avg_score_result of
                            Some (Some a) \<Rightarrow> (if a = 0 then 0.0 else a) | _ \<Rightarrow> 0.0);
               level = (case scalar latest_evaluation_result of
                          None \<Rightarrow> ''A1'' | Some l \<Rightarrow> (if l = [] then ''A1'' else l))
           in Inr \<lparr> total_conversations = total,
                    average_score = round2 average,
                    current_level = level,
                    last_conversation_date = scalar last_conversation_result,
                    grammar_trend = map ev_grammar_score trend_data,
                    vocabulary_trend = map ev_vocabulary_score trend_data,
                    fluency_trend = map ev_fluency_score trend_data,
                    pronunciation_trend = map ev_pronunciation_score trend_data,
                    comprehension_trend = map ev_comprehension_score trend_data \<rparr>))))))
       (\<lambda>e. Inr default_progress)"

section \<open>CEFR level mapping\<close>

text \<open>\<^verbatim>\<open>LLaMAAnalysisService._determine_proficiency_level\<close>.\<close>

definition determine_proficiency_level :: "real \<Rightarrow> string" where
  "determine_proficiency_level score =
     (if score \<ge> 70 then ''C2''
      else if score \<ge> 55 then ''C1''
      else if score \<ge> 40 then ''B2''
      else if score \<ge> 25 then ''B1''
      else if score \<ge> 15 then ''A2''
      else ''A1'')"

text \<open>The CEFR order, lowest level first, and the position of a level in it.\<close>

definition cefr_levels :: "string list" where
  "cefr_levels = [''A1'', ''A2'', ''B1'', ''B2'', ''C1'', ''C2'']"

definition cefr_rank :: "string \<Rightarrow> nat" where
  "cefr_rank l = index_of l cefr_levels"

section \<open>Theorems\<close>

subsection \<open>Auxiliary facts about the evaluation pipeline\<close>

lemma clamp_score_range:
  "clamp_score v = Inr w \<Longrightarrow> \<exists>x. num_val w = Some x \<and> 0 \<le> x \<and> x \<le> 25"
  by (cases v) (auto simp: clamp_score_def py_min_num_def py_max_num_def bind_e_def split: if_splits)

lemma clamp_score_PNum: "clamp_score (PNum x) = Inr (PNum (max 0 (min 25 x)))"
  by (simp add: clamp_score_def py_min_num_def py_max_num_def bind_e_def max_def min_def)

lemma py_add_num:
  "num_val a = Some x \<Longrightarrow> num_val b = Some y \<Longrightarrow> py_add a b = Inr (PNum (x + y))"
  by (cases a; cases b) (simp_all add: py_add_def is_number_def)

lemma bind_e_Inr: "bind_e m f = Inr y \<longleftrightarrow> (\<exists>x. m = Inr x \<and> f x = Inr y)"
  by (cases m) (simp_all add: bind_e_def)

lemma py_get_Inr: "py_get obj k dflt = Inr v \<longleftrightarrow> (\<exists>d. obj = PDict d \<and> v = dict_get d k dflt)"
  by (cases obj) (auto simp: py_get_def)

lemma llm_scores_Inr:
  assumes "llm_scores data = Inr d"
  shows "\<exists>dd g v f c s1 s2 ov.
           data = PDict dd
         \<and> clamp_score (dict_get dd ''grammar_score'' (PNum 0)) = Inr g
         \<and> clamp_score (dict_get dd ''vocabulary_score'' (PNum 0)) = Inr v
         \<and> clamp_score (dict_get dd ''fluency_score'' (PNum 0)) = Inr f
         \<and> clamp_score (dict_get dd ''comprehension_score'' (PNum 0)) = Inr c
         \<and> py_add g v = Inr s1 \<and> py_add s1 f = Inr s2 \<and> py_add s2 c = Inr ov
         \<and> d = [(''grammar_score'', g), (''vocabulary_score'', v), (''fluency_score'', f),
                (''comprehension_score'', c), (''overall_score'', ov),
                (''proficiency_level'', dict_get dd ''proficiency_level'' (PStr ''A1'')),
                (''detailed_feedback'', dict_get dd ''detailed_feedback'' (PDict [])),
                (''evaluation_method'', PStr ''LLM-based'')]"
  using assms unfolding llm_scores_def bind_e_Inr py_get_Inr by auto

lemma fallback_scores:
  "\<exists>b. 0 \<le> b \<and> b \<le> 15 \<and> (\<exists>lvl fb.
     fallback_evaluation t =
       [(''grammar_score'', PNum b), (''vocabulary_score'', PNum b), (''fluency_score'', PNum b),
        (''comprehension_score'', PNum b), (''overall_score'', PNum (b * 4)),
        (''proficiency_level'', lvl), (''detailed_feedback'', PDict fb),
        (''evaluation_method'', PStr ''Fallback'')])"
  by (simp add: fallback_evaluation_def Let_def)

lemma llm_based_evaluation_cases:
  "llm_based_evaluation jl g t c = Inr (fallback_evaluation t)
   \<or> (\<exists>resp data d. g = Inr resp \<and> jl resp = Inr data \<and> llm_scores data = Inr d
         \<and> llm_based_evaluation jl g t c = Inr d)"
proof (cases g)
  case (Inl e)
  then show ?thesis by (simp add: llm_based_evaluation_def try_except_def bind_e_def)
next
  case (Inr resp)
  show ?thesis
  proof (cases "jl resp")
    case (Inl e)
    with Inr show ?thesis
      by (simp add: llm_based_evaluation_def try_except_def except_json_decode_def bind_e_def)
  next
    case jr: (Inr data)
    show ?thesis
    proof (cases "llm_scores data")
      case (Inl e)
      with Inr jr show ?thesis
        by (simp add: llm_based_evaluation_def try_except_def except_json_decode_def bind_e_def)
    next
      case sr: (Inr d)
      with Inr jr show ?thesis
        by (simp add: llm_based_evaluation_def try_except_def except_json_decode_def bind_e_def)
    qed
  qed
qed

lemma analyze_conversation_cases:
  "analyze_conversation jl g t c a = Inr failed_analysis
   \<or> (\<exists>ev r. llm_based_evaluation jl g t c = Inr ev \<and> result_of_evaluation ev = Inr r
         \<and> analyze_conversation jl g t c a = Inr r)"
  unfolding analyze_conversation_def try_except_def bind_e_def
  by (auto split: sum.splits)

lemma result_of_evaluation_pron:
  "result_of_evaluation ev = Inr r \<Longrightarrow> pronunciation_score r = PNum 0"
  unfolding result_of_evaluation_def bind_e_Inr by auto

lemma analyze_conversation_total:
  "\<exists>r. analyze_conversation jl g t c a = Inr r"
  using analyze_conversation_cases [of jl g t c a] by auto

lemma llm_scores_bounds:
  assumes "llm_scores data = Inr d"
  shows "\<exists>g v f c gx vx fx cx.
       map_of d ''grammar_score'' = Some g \<and> num_val g = Some gx \<and> 0 \<le> gx \<and> gx \<le> 25
     \<and> map_of d ''vocabulary_score'' = Some v \<and> num_val v = Some vx \<and> 0 \<le> vx \<and> vx \<le> 25
     \<and> map_of d ''fluency_score'' = Some f \<and> num_val f = Some fx \<and> 0 \<le> fx \<and> fx \<le> 25
     \<and> map_of d ''comprehension_score'' = Some c \<and> num_val c = Some cx \<and> 0 \<le> cx \<and> cx \<le> 25
     \<and> map_of d ''overall_score'' = Some (PNum (gx + vx + fx + cx))
     \<and> gx + vx + fx + cx \<le> 100"
proof -
  from llm_scores_Inr [OF assms] obtain dd g v f c s1 s2 ov where
    g: "clamp_score (dict_get dd ''grammar_score'' (PNum 0)) = Inr g" and
    v: "clamp_score (dict_get dd ''vocabulary_score'' (PNum 0)) = Inr v" and
    f: "clamp_score (dict_get dd ''fluency_score'' (PNum 0)) = Inr f" and
    c: "clamp_score (dict_get dd ''comprehension_score'' (PNum 0)) = Inr c" and
    s1: "py_add g v = Inr s1" and s2: "py_add s1 f = Inr s2" and ov: "py_add s2 c = Inr ov" and
    d: "d = [(''grammar_score'', g), (''vocabulary_score'', v), (''fluency_score'', f),
                (''comprehension_score'', c), (''overall_score'', ov),
                (''proficiency_level'', dict_get dd ''proficiency_level'' (PStr ''A1'')),
                (''detailed_feedback'', dict_get dd ''detailed_feedback'' (PDict [])),
                (''evaluation_method'', PStr ''LLM-based'')]"
    by blast
  from clamp_score_range [OF g] obtain gx where gx: "num_val g = Some gx" "0 \<le> gx" "gx \<le> 25" by blast
  from clamp_score_range [OF v] obtain vx where vx: "num_val v = Some vx" "0 \<le> vx" "vx \<le> 25" by blast
  from clamp_score_range [OF f] obtain fx where fx: "num_val f = Some fx" "0 \<le> fx" "fx \<le> 25" by blast
  from clamp_score_range [OF c] obtain cx where cx: "num_val c = Some cx" "0 \<le> cx" "cx \<le> 25" by blast
  from s1 py_add_num [OF gx(1) vx(1)] have s1': "s1 = PNum (gx + vx)" by simp
  then have n1: "num_val s1 = Some (gx + vx)" by simp
  from s2 py_add_num [OF n1 fx(1)] have s2': "s2 = PNum (gx + vx + fx)" by simp
  then have n2: "num_val s2 = Some (gx + vx + fx)" by simp
  from ov py_add_num [OF n2 cx(1)] have ov': "ov = PNum (gx + vx + fx + cx)" by simp
  have sum: "gx + vx + fx + cx \<le> 100" using gx vx fx cx by linarith
  show ?thesis
    unfolding d ov' using gx vx fx cx sum by simp
qed

lemma fallback_bounds:
  "\<exists>g v f c gx vx fx cx.
       map_of (fallback_evaluation t) ''grammar_score'' = Some g \<and> num_val g = Some gx \<and> 0 \<le> gx \<and> gx \<le> 25
     \<and> map_of (fallback_evaluation t) ''vocabulary_score'' = Some v \<and> num_val v = Some vx \<and> 0 \<le> vx \<and> vx \<le> 25
     \<and> map_of (fallback_evaluation t) ''fluency_score'' = Some f \<and> num_val f = Some fx \<and> 0 \<le> fx \<and> fx \<le> 25
     \<and> map_of (fallback_evaluation t) ''comprehension_score'' = Some c \<and> num_val c = Some cx \<and> 0 \<le> cx \<and> cx \<le> 25
     \<and> map_of (fallback_evaluation t) ''overall_score'' = Some (PNum (gx + vx + fx + cx))
     \<and> gx + vx + fx + cx \<le> 100"
proof -
  from fallback_scores [of t] obtain b lvl fb where b: "0 \<le> b" "b \<le> 15" and
    fe: "fallback_evaluation t =
       [(''grammar_score'', PNum b), (''vocabulary_score'', PNum b), (''fluency_score'', PNum b),
        (''comprehension_score'', PNum b), (''overall_score'', PNum (b * 4)),
        (''proficiency_level'', lvl), (''detailed_feedback'', PDict fb),
        (''evaluation_method'', PStr ''Fallback'')]"
    by blast
  show ?thesis
    unfolding fe using b by simp
qed

lemma llm_scores_clamp_of_input:
  assumes "llm_scores (PDict data) = Inr d"
  shows "(\<exists>w. map_of d ''grammar_score'' = Some w
            \<and> clamp_score (dict_get data ''grammar_score'' (PNum 0)) = Inr w)
       \<and> (\<exists>w. map_of d ''vocabulary_score'' = Some w
            \<and> clamp_score (dict_get data ''vocabulary_score'' (PNum 0)) = Inr w)
       \<and> (\<exists>w. map_of d ''fluency_score'' = Some w
            \<and> clamp_score (dict_get data ''fluency_score'' (PNum 0)) = Inr w)
       \<and> (\<exists>w. map_of d ''comprehension_score'' = Some w
            \<and> clamp_score (dict_get data ''comprehension_score'' (PNum 0)) = Inr w)"
proof -
  from llm_scores_Inr [OF assms] obtain dd g v f c s1 s2 ov where
    dd: "PDict data = PDict dd" and
    g: "clamp_score (dict_get dd ''grammar_score'' (PNum 0)) = Inr g" and
    v: "clamp_score (dict_get dd ''vocabulary_score'' (PNum 0)) = Inr v" and
    f: "clamp_score (dict_get dd ''fluency_score'' (PNum 0)) = Inr f" and
    c: "clamp_score (dict_get dd ''comprehension_score'' (PNum 0)) = Inr c" and
    d: "d = [(''grammar_score'', g), (''vocabulary_score'', v), (''fluency_score'', f),
                (''comprehension_score'', c), (''overall_score'', ov),
                (''proficiency_level'', dict_get dd ''proficiency_level'' (PStr ''A1'')),
                (''detailed_feedback'', dict_get dd ''detailed_feedback'' (PDict [])),
                (''evaluation_method'', PStr ''LLM-based'')]"
    by blast
  from dd have eq: "dd = data" by simp
  show ?thesis
    unfolding d using g v f c unfolding eq by simp
qed

lemma bad_feedback_scores:
  "llm_scores (PDict [(''detailed_feedback'', PStr ''good'')]) =
     Inr [(''grammar_score'', PNum 0), (''vocabulary_score'', PNum 0), (''fluency_score'', PNum 0),
          (''comprehension_score'', PNum 0), (''overall_score'', PNum 0),
          (''proficiency_level'', PStr ''A1''), (''detailed_feedback'', PStr ''good''),
          (''evaluation_method'', PStr ''LLM-based'')]"
  by (simp add: llm_scores_def bind_e_def py_get_def dict_get_def clamp_score_def
      py_min_num_def py_max_num_def py_add_def is_number_def)

lemma json_sample_simps:
  "json_sample ''{\"detailed_feedback\": \"good\"}''
     = Inr (PDict [(''detailed_feedback'', PStr ''good'')])"
  "json_sample ''{\"grammar_score\": 30, \"vocabulary_score\": 18.5, \"fluency_score\": -2, \"comprehension_score\": 20}''
     = Inr (PDict [(''grammar_score'', PNum 30), (''vocabulary_score'', PNum 18.5),
                   (''fluency_score'', PNum (- 2)), (''comprehension_score'', PNum 20)])"
  "json_sample ''{\"grammar_score\": 25, \"vocabulary_score\": 25, \"fluency_score\": 25, \"comprehension_score\": 25}''
     = Inr (PDict [(''grammar_score'', PNum 25), (''vocabulary_score'', PNum 25),
                   (''fluency_score'', PNum 25), (''comprehension_score'', PNum 25)])"
  "json_sample ''Sure! Here is my answer'' = Inl JSONDecodeError"
  by (simp_all add: json_sample_def)

lemma bad_feedback_eval:
  "llm_based_evaluation json_sample (Inr ''{\"detailed_feedback\": \"good\"}'') t c =
     Inr [(''grammar_score'', PNum 0), (''vocabulary_score'', PNum 0), (''fluency_score'', PNum 0),
          (''comprehension_score'', PNum 0), (''overall_score'', PNum 0),
          (''proficiency_level'', PStr ''A1''), (''detailed_feedback'', PStr ''good''),
          (''evaluation_method'', PStr ''LLM-based'')]"
  by (simp add: llm_based_evaluation_def try_except_def except_json_decode_def bind_e_def
      bad_feedback_scores json_sample_simps)

lemma bad_feedback_result:
  "result_of_evaluation
     [(''grammar_score'', PNum 0), (''vocabulary_score'', PNum 0), (''fluency_score'', PNum 0),
          (''comprehension_score'', PNum 0), (''overall_score'', PNum 0),
          (''proficiency_level'', PStr ''A1''), (''detailed_feedback'', PStr ''good''),
          (''evaluation_method'', PStr ''LLM-based'')] = Inl AttributeError"
  by (simp add: result_of_evaluation_def bind_e_def dict_item_def py_get_def)

lemma sample_scores:
  "llm_scores (PDict [(''grammar_score'', PNum 30), (''vocabulary_score'', PNum 18.5),
                      (''fluency_score'', PNum (- 2)), (''comprehension_score'', PNum 20)]) =
     Inr [(''grammar_score'', PNum 25), (''vocabulary_score'', PNum 18.5),
          (''fluency_score'', PNum 0), (''comprehension_score'', PNum 20),
          (''overall_score'', PNum 63.5), (''proficiency_level'', PStr ''A1''),
          (''detailed_feedback'', PDict []), (''evaluation_method'', PStr ''LLM-based'')]"
  by (simp add: llm_scores_def bind_e_def py_get_def dict_get_def clamp_score_def
      py_min_num_def py_max_num_def py_add_def is_number_def)

lemma fallback_result_differs:
  "\<exists>r. result_of_evaluation (fallback_evaluation t) = Inr r \<and> r \<noteq> failed_analysis"
proof -
  from fallback_scores [of t] obtain b lvl fb where
    fe: "fallback_evaluation t =
       [(''grammar_score'', PNum b), (''vocabulary_score'', PNum b), (''fluency_score'', PNum b),
        (''comprehension_score'', PNum b), (''overall_score'', PNum (b * 4)),
        (''proficiency_level'', lvl), (''detailed_feedback'', PDict fb),
        (''evaluation_method'', PStr ''Fallback'')]"
    by blast
  have "\<exists>r. result_of_evaluation (fallback_evaluation t) = Inr r" 
    unfolding fe by (simp add: result_of_evaluation_def bind_e_def dict_item_def py_get_def)
  then obtain r where r: "result_of_evaluation (fallback_evaluation t) = Inr r" by blast
  then have "detailed_feedback r \<noteq> detailed_feedback failed_analysis"
    unfolding result_of_evaluation_def bind_e_Inr
    by (auto simp: fallback_evaluation_def Let_def dict_item_def failed_analysis_def)
  then have "r \<noteq> failed_analysis" by auto
  with r show ?thesis by blast
qed

subsection \<open>C1: word-count thresholds of the fallback scoring\<close>

text \<open>
  C1. For every transcript, \<open>fallback_evaluation\<close> gives the four dimensions grammar,
  vocabulary, fluency and comprehension the same base score: 1 when the transcript has fewer
  than 2 whitespace-separated words, 3 when fewer than 5, 8 when fewer than 10 and 15
  otherwise. The overall score is 4 times the base score, and the proficiency level is
  "A1" below 5 words and "B1" from 5 words on.
\<close>

theorem fallback_evaluation_thresholds:
  fixes transcript :: string
  defines "wc \<equiv> length (py_split transcript)"
  defines "base \<equiv> (if wc < 2 then (1::real) else if wc < 5 then 3 else if wc < 10 then 8 else 15)"
  defines "r \<equiv> map_of (fallback_evaluation transcript)"
  shows "r ''grammar_score'' = Some (PNum base)
       \<and> r ''vocabulary_score'' = Some (PNum base)
       \<and> r ''fluency_score'' = Some (PNum base)
       \<and> r ''comprehension_score'' = Some (PNum base)
       \<and> r ''overall_score'' = Some (PNum (4 * base))
       \<and> r ''proficiency_level'' = Some (PStr (if wc < 5 then ''A1'' else ''B1''))"
  unfolding r_def base_def wc_def fallback_evaluation_def Let_def by simp

theorem fallback_evaluation_thresholds_witness:
  "map_of (fallback_evaluation ''I like tea'') ''grammar_score'' = Some (PNum 3)
   \<and> map_of (fallback_evaluation ''I like tea'') ''overall_score'' = Some (PNum 12)
   \<and> map_of (fallback_evaluation ''I like tea'') ''proficiency_level'' = Some (PStr ''A1'')"
proof -
  have wc: "length (py_split ''I like tea'') = 3"
    by (simp add: py_split_def is_space_def)
  show ?thesis
    using fallback_evaluation_thresholds [of "''I like tea''"] unfolding wc by simp
qed

subsection \<open>C2: a failing LLM call falls back instead of failing\<close>

text \<open>
  C2. When the LLM generation raises an exception, or its output cannot be parsed as JSON,
  \<open>llm_based_evaluation\<close> returns the result of \<open>fallback_evaluation\<close>.
  \<open>analyze_conversation\<close> never propagates an exception: it always returns a result, and
  whenever its \<^verbatim>\<open>try\<close> block raises, the result is the fixed \<open>failed_analysis\<close> with overall
  score 5, grammar 1, vocabulary 1, fluency 1, comprehension 2 and level "A1". (Exceptions
  are the subclasses of \<^verbatim>\<open>Exception\<close>, which is what both handlers catch.)
\<close>

theorem llm_failure_falls_back:
  "(generated = Inl e \<longrightarrow>
      llm_based_evaluation json_loads generated transcript ctx = Inr (fallback_evaluation transcript))
   \<and> (generated = Inr response \<and> json_loads response = Inl JSONDecodeError \<longrightarrow>
      llm_based_evaluation json_loads generated transcript ctx = Inr (fallback_evaluation transcript))
   \<and> (\<exists>r. analyze_conversation json_loads generated transcript ctx audio_duration = Inr r)
   \<and> (bind_e (llm_based_evaluation json_loads generated transcript ctx) result_of_evaluation = Inl e'
        \<longrightarrow> analyze_conversation json_loads generated transcript ctx audio_duration
              = Inr failed_analysis)
   \<and> overall_score failed_analysis = PNum 5
   \<and> grammar_score failed_analysis = PNum 1
   \<and> vocabulary_score failed_analysis = PNum 1
   \<and> fluency_score failed_analysis = PNum 1
   \<and> comprehension_score failed_analysis = PNum 2
   \<and> proficiency_level failed_analysis = PStr ''A1''"
proof -
  have gen: "generated = Inl e \<longrightarrow>
      llm_based_evaluation json_loads generated transcript ctx = Inr (fallback_evaluation transcript)"
    by (simp add: llm_based_evaluation_def try_except_def bind_e_def)
  have parse: "generated = Inr response \<and> json_loads response = Inl JSONDecodeError \<longrightarrow>
      llm_based_evaluation json_loads generated transcript ctx = Inr (fallback_evaluation transcript)"
    by (simp add: llm_based_evaluation_def try_except_def except_json_decode_def bind_e_def)
  have total: "\<exists>r. analyze_conversation json_loads generated transcript ctx audio_duration = Inr r"
    by (rule analyze_conversation_total)
  have fixed: "bind_e (llm_based_evaluation json_loads generated transcript ctx) result_of_evaluation = Inl e'
        \<longrightarrow> analyze_conversation json_loads generated transcript ctx audio_duration
              = Inr failed_analysis"
    by (simp add: analyze_conversation_def try_except_def)
  have vals: "overall_score failed_analysis = PNum 5
   \<and> grammar_score failed_analysis = PNum 1
   \<and> vocabulary_score failed_analysis = PNum 1
   \<and> fluency_score failed_analysis = PNum 1
   \<and> comprehension_score failed_analysis = PNum 2
   \<and> proficiency_level failed_analysis = PStr ''A1''"
    by (simp add: failed_analysis_def)
  from gen parse total fixed vals show ?thesis by blast
qed

theorem llm_failure_falls_back_witness:
  "llm_based_evaluation json_sample (Inl (OtherException ''CUDA out of memory''))
       ''I like tea'' None = Inr (fallback_evaluation ''I like tea'')
   \<and> llm_based_evaluation json_sample (Inr ''Sure! Here is my answer'')
       ''I like tea'' None = Inr (fallback_evaluation ''I like tea'')
   \<and> analyze_conversation json_sample (Inr ''{\"detailed_feedback\": \"good\"}'')
       ''I like tea'' None None = Inr failed_analysis"
proof -
  have a: "llm_based_evaluation json_sample (Inl (OtherException ''CUDA out of memory''))
       ''I like tea'' None = Inr (fallback_evaluation ''I like tea'')"
    using llm_failure_falls_back
      [where generated = "Inl (OtherException ''CUDA out of memory'')"
         and e = "OtherException ''CUDA out of memory''"
         and json_loads = json_sample and transcript = "''I like tea''" and ctx = None]
    by simp
  have b: "llm_based_evaluation json_sample (Inr ''Sure! Here is my answer'')
       ''I like tea'' None = Inr (fallback_evaluation ''I like tea'')"
    using llm_failure_falls_back
      [where generated = "Inr ''Sure! Here is my answer''"
         and response = "''Sure! Here is my answer''"
         and json_loads = json_sample and transcript = "''I like tea''" and ctx = None]
    by (simp add: json_sample_simps)
  have c: "analyze_conversation json_sample (Inr ''{\"detailed_feedback\": \"good\"}'')
       ''I like tea'' None None = Inr failed_analysis"
    using llm_failure_falls_back
      [where generated = "Inr ''{\"detailed_feedback\": \"good\"}''"
         and json_loads = json_sample and transcript = "''I like tea''" and ctx = None
         and audio_duration = None and e' = AttributeError]
    by (simp add: bad_feedback_eval bad_feedback_result bind_e_def)
  from a b c show ?thesis by blast
qed

subsection \<open>C3: the LLM scores are clamped and summed\<close>

text \<open>
  C3. In the LLM-based evaluation each of the four dimension scores lies in the interval
  from 0 to 25, and the overall score is the sum of the four, hence at most 100. When the
  scores come from the LLM's JSON output, each is \<^verbatim>\<open>max(0, min(25, v))\<close> of the value \<open>v\<close>
  the output has under the key (0 when the key is missing); on a number \<open>x\<close> that is
  \<open>max 0 (min 25 x)\<close>. The pronunciation score of the result of \<open>analyze_conversation\<close>
  is always 0.
\<close>

theorem llm_evaluation_scores_clamped:
  "(\<exists>d g v f c gx vx fx cx.
       llm_based_evaluation json_loads generated transcript ctx = Inr d
     \<and> map_of d ''grammar_score'' = Some g \<and> num_val g = Some gx \<and> 0 \<le> gx \<and> gx \<le> 25
     \<and> map_of d ''vocabulary_score'' = Some v \<and> num_val v = Some vx \<and> 0 \<le> vx \<and> vx \<le> 25
     \<and> map_of d ''fluency_score'' = Some f \<and> num_val f = Some fx \<and> 0 \<le> fx \<and> fx \<le> 25
     \<and> map_of d ''comprehension_score'' = Some c \<and> num_val c = Some cx \<and> 0 \<le> cx \<and> cx \<le> 25
     \<and> map_of d ''overall_score'' = Some (PNum (gx + vx + fx + cx))
     \<and> gx + vx + fx + cx \<le> 100)
   \<and> (generated = Inr response \<and> json_loads response = Inr (PDict data)
        \<and> llm_scores (PDict data) = Inr d' \<longrightarrow>
          llm_based_evaluation json_loads generated transcript ctx = Inr d'
        \<and> (\<exists>w. map_of d' ''grammar_score'' = Some w
               \<and> clamp_score (dict_get data ''grammar_score'' (PNum 0)) = Inr w)
        \<and> (\<exists>w. map_of d' ''vocabulary_score'' = Some w
               \<and> clamp_score (dict_get data ''vocabulary_score'' (PNum 0)) = Inr w)
        \<and> (\<exists>w. map_of d' ''fluency_score'' = Some w
               \<and> clamp_score (dict_get data ''fluency_score'' (PNum 0)) = Inr w)
        \<and> (\<exists>w. map_of d' ''comprehension_score'' = Some w
               \<and> clamp_score (dict_get data ''comprehension_score'' (PNum 0)) = Inr w))
   \<and> clamp_score (PNum x) = Inr (PNum (max 0 (min 25 x)))
   \<and> (\<exists>r. analyze_conversation json_loads generated transcript ctx audio_duration = Inr r
          \<and> pronunciation_score r = PNum 0)"
proof -
  have bounds: "\<exists>d g v f c gx vx fx cx.
       llm_based_evaluation json_loads generated transcript ctx = Inr d
     \<and> map_of d ''grammar_score'' = Some g \<and> num_val g = Some gx \<and> 0 \<le> gx \<and> gx \<le> 25
     \<and> map_of d ''vocabulary_score'' = Some v \<and> num_val v = Some vx \<and> 0 \<le> vx \<and> vx \<le> 25
     \<and> map_of d ''fluency_score'' = Some f \<and> num_val f = Some fx \<and> 0 \<le> fx \<and> fx \<le> 25
     \<and> map_of d ''comprehension_score'' = Some c \<and> num_val c = Some cx \<and> 0 \<le> cx \<and> cx \<le> 25
     \<and> map_of d ''overall_score'' = Some (PNum (gx + vx + fx + cx))
     \<and> gx + vx + fx + cx \<le> 100"
    using llm_based_evaluation_cases [of json_loads generated transcript ctx]
  proof
    assume fb: "llm_based_evaluation json_loads generated transcript ctx
                  = Inr (fallback_evaluation transcript)"
    from fallback_bounds [of transcript] show ?thesis unfolding fb by blast
  next
    assume "\<exists>resp data d. generated = Inr resp \<and> json_loads resp = Inr data
              \<and> llm_scores data = Inr d
              \<and> llm_based_evaluation json_loads generated transcript ctx = Inr d"
    then obtain data d where sc: "llm_scores data = Inr d"
      and ev: "llm_based_evaluation json_loads generated transcript ctx = Inr d"
      by blast
    from llm_scores_bounds [OF sc] show ?thesis unfolding ev by blast
  qed
  have clamped: "generated = Inr response \<and> json_loads response = Inr (PDict data)
        \<and> llm_scores (PDict data) = Inr d' \<longrightarrow>
          llm_based_evaluation json_loads generated transcript ctx = Inr d'
        \<and> (\<exists>w. map_of d' ''grammar_score'' = Some w
               \<and> clamp_score (dict_get data ''grammar_score'' (PNum 0)) = Inr w)
        \<and> (\<exists>w. map_of d' ''vocabulary_score'' = Some w
               \<and> clamp_score (dict_get data ''vocabulary_score'' (PNum 0)) = Inr w)
        \<and> (\<exists>w. map_of d' ''fluency_score'' = Some w
               \<and> clamp_score (dict_get data ''fluency_score'' (PNum 0)) = Inr w)
        \<and> (\<exists>w. map_of d' ''comprehension_score'' = Some w
               \<and> clamp_score (dict_get data ''comprehension_score'' (PNum 0)) = Inr w)"
  proof
    assume h: "generated = Inr response \<and> json_loads response = Inr (PDict data)
        \<and> llm_scores (PDict data) = Inr d'"
    then have ev: "llm_based_evaluation json_loads generated transcript ctx = Inr d'"
      by (simp add: llm_based_evaluation_def try_except_def except_json_decode_def bind_e_def)
    from h have "llm_scores (PDict data) = Inr d'" by simp
    from ev llm_scores_clamp_of_input [OF this]
    show "llm_based_evaluation json_loads generated transcript ctx = Inr d'
        \<and> (\<exists>w. map_of d' ''grammar_score'' = Some w
               \<and> clamp_score (dict_get data ''grammar_score'' (PNum 0)) = Inr w)
        \<and> (\<exists>w. map_of d' ''vocabulary_score'' = Some w
               \<and> clamp_score (dict_get data ''vocabulary_score'' (PNum 0)) = Inr w)
        \<and> (\<exists>w. map_of d' ''fluency_score'' = Some w
               \<and> clamp_score (dict_get data ''fluency_score'' (PNum 0)) = Inr w)
        \<and> (\<exists>w. map_of d' ''comprehension_score'' = Some w
               \<and> clamp_score (dict_get data ''comprehension_score'' (PNum 0)) = Inr w)"
      by blast
  qed
  have num: "clamp_score (PNum x) = Inr (PNum (max 0 (min 25 x)))"
    by (rule clamp_score_PNum)
  have pron: "\<exists>r. analyze_conversation json_loads generated transcript ctx audio_duration = Inr r
          \<and> pronunciation_score r = PNum 0"
    using analyze_conversation_cases [of json_loads generated transcript ctx audio_duration]
  proof
    assume "analyze_conversation json_loads generated transcript ctx audio_duration
              = Inr failed_analysis"
    then show ?thesis by (simp add: failed_analysis_def)
  next
    assume "\<exists>ev r. llm_based_evaluation json_loads generated transcript ctx = Inr ev
              \<and> result_of_evaluation ev = Inr r
              \<and> analyze_conversation json_loads generated transcript ctx audio_duration = Inr r"
    then obtain ev r where "result_of_evaluation ev = Inr r"
      and "analyze_conversation json_loads generated transcript ctx audio_duration = Inr r"
      by blast
    with result_of_evaluation_pron show ?thesis by blast
  qed
  from bounds clamped num pron show ?thesis by blast
qed

theorem llm_evaluation_scores_clamped_witness:
  "llm_based_evaluation json_sample
     (Inr ''{\"grammar_score\": 30, \"vocabulary_score\": 18.5, \"fluency_score\": -2, \"comprehension_score\": 20}'')
     ''I like tea'' None =
     Inr [(''grammar_score'', PNum 25), (''vocabulary_score'', PNum 18.5),
          (''fluency_score'', PNum 0), (''comprehension_score'', PNum 20),
          (''overall_score'', PNum 63.5), (''proficiency_level'', PStr ''A1''),
          (''detailed_feedback'', PDict []), (''evaluation_method'', PStr ''LLM-based'')]"
  using llm_evaluation_scores_clamped
    [where json_loads = json_sample
       and generated = "Inr ''{\"grammar_score\": 30, \"vocabulary_score\": 18.5, \"fluency_score\": -2, \"comprehension_score\": 20}''"
       and response = "''{\"grammar_score\": 30, \"vocabulary_score\": 18.5, \"fluency_score\": -2, \"comprehension_score\": 20}''"
       and transcript = "''I like tea''"
       and ctx = None
       and data = "[(''grammar_score'', PNum 30), (''vocabulary_score'', PNum 18.5),
              (''fluency_score'', PNum (- 2)), (''comprehension_score'', PNum 20)]"
       and d' = "[(''grammar_score'', PNum 25), (''vocabulary_score'', PNum 18.5),
          (''fluency_score'', PNum 0), (''comprehension_score'', PNum 20),
          (''overall_score'', PNum 63.5), (''proficiency_level'', PStr ''A1''),
          (''detailed_feedback'', PDict []), (''evaluation_method'', PStr ''LLM-based'')]"]
    sample_scores json_sample_simps(2)
  by blast

subsection \<open>C4: the heuristic scoring is a function of text statistics\<close>

lemma split_on_nonempty: "split_on sep s \<noteq> []"
  by (cases s) (simp_all split: list.splits)

text \<open>
  C4. The rule-based scoring is deterministic: the same text and context give the same
  result, because both functions read nothing but their arguments. More precisely, the
  result of \<open>fallback_evaluation\<close> (scores and feedback) depends only on the number of
  words of the transcript, and the score of \<open>enhanced_comprehension_analysis\<close> depends
  only on the statistics of the text (number of words, of sentence pieces, of long words,
  and the three coherence indicators) and not on the context.
\<close>

theorem heuristic_scoring_deterministic:
  "(t1 = t2 \<and> c1 = c2 \<longrightarrow>
      fallback_evaluation t1 = fallback_evaluation t2
      \<and> enhanced_comprehension_analysis t1 c1 = enhanced_comprehension_analysis t2 c2)
   \<and> (length (py_split t1) = length (py_split t2) \<longrightarrow>
        fallback_evaluation t1 = fallback_evaluation t2)
   \<and> (text_statistics t1 = text_statistics t2 \<longrightarrow>
        enhanced_comprehension_analysis t1 c1 = enhanced_comprehension_analysis t2 c2)"
proof -
  have same: "t1 = t2 \<and> c1 = c2 \<longrightarrow>
      fallback_evaluation t1 = fallback_evaluation t2
      \<and> enhanced_comprehension_analysis t1 c1 = enhanced_comprehension_analysis t2 c2"
    by simp
  have fb: "length (py_split t1) = length (py_split t2) \<longrightarrow>
        fallback_evaluation t1 = fallback_evaluation t2"
    by (simp add: fallback_evaluation_def Let_def)
  have comp: "text_statistics t1 = text_statistics t2 \<longrightarrow>
        enhanced_comprehension_analysis t1 c1 = enhanced_comprehension_analysis t2 c2"
  proof
    assume "text_statistics t1 = text_statistics t2"
    then have "length (py_split t1) = length (py_split t2)"
      and "length (split_on CHR ''.'' t1) = length (split_on CHR ''.'' t2)"
      and "length (filter (\<lambda>word. length word > 5) (py_split t1))
           = length (filter (\<lambda>word. length word > 5) (py_split t2))"
      and "has_transition t1 = has_transition t2"
      and "has_conjunction t1 = has_conjunction t2"
      and "has_relative t1 = has_relative t2"
      by (simp_all add: text_statistics_def)
    moreover have "split_on CHR ''.'' t1 \<noteq> []" "split_on CHR ''.'' t2 \<noteq> []"
      by (rule split_on_nonempty)+
    ultimately show "enhanced_comprehension_analysis t1 c1 = enhanced_comprehension_analysis t2 c2"
      unfolding enhanced_comprehension_analysis_def Let_def
      by (simp only: )
  qed
  from same fb comp show ?thesis by blast
qed

theorem heuristic_scoring_deterministic_witness:
  "fallback_evaluation ''I like tea'' = fallback_evaluation ''We love pie''
   \<and> enhanced_comprehension_analysis ''I like tea'' None
       = enhanced_comprehension_analysis ''We love pie'' (Some ''small talk'')"
proof -
  have st: "text_statistics ''I like tea'' = text_statistics ''We love pie''"
    by code_simp
  have wc: "length (py_split ''I like tea'') = length (py_split ''We love pie'')"
    by code_simp
  from st wc heuristic_scoring_deterministic
    [of "''I like tea''" "''We love pie''" None "Some ''small talk''"]
  show ?thesis by blast
qed

subsection \<open>C5: the analysis service is selected by the configuration\<close>

text \<open>
  C5. For every request to the endpoint \<open>test_analyze_conversation\<close>, the GPT service is
  used if and only if \<^verbatim>\<open>USE_GPT_ANALYSIS\<close> is true and \<^verbatim>\<open>OPENAI_API_KEY\<close> is set (the
  condition tests its truth value: a key that is neither \<^verbatim>\<open>None\<close> nor empty); the response
  is then made from the GPT analysis, and otherwise the LLaMA service analyses the
  transcript. \<open>gpt_analyze_conversation\<close> raises \<^verbatim>\<open>RuntimeError\<close> whenever the service has
  no client, and the constructor makes no client exactly when the OpenAI library is
  missing or no key was provided.
\<close>

theorem service_selected_by_configuration:
  "(fst (test_analyze_conversation settings gpt_service json_loads gpt_reply llama_generated
           transcript ctx audio_duration) = GPT
      \<longleftrightarrow> USE_GPT_ANALYSIS settings \<and> truthy_key (OPENAI_API_KEY settings))
   \<and> (USE_GPT_ANALYSIS settings \<and> truthy_key (OPENAI_API_KEY settings) \<longrightarrow>
        snd (test_analyze_conversation settings gpt_service json_loads gpt_reply llama_generated
               transcript ctx audio_duration)
        = (case gpt_analyze_conversation gpt_service json_loads gpt_reply transcript
                  (case ctx of None \<Rightarrow> ''General conversation''
                   | Some c \<Rightarrow> if c = [] then ''General conversation'' else c)
                  audio_duration of
             Inl e \<Rightarrow> Inl (HTTPException 500 e)
           | Inr r \<Rightarrow> Inr (response_of_result r)))
   \<and> (\<not> (USE_GPT_ANALYSIS settings \<and> truthy_key (OPENAI_API_KEY settings)) \<longrightarrow>
        test_analyze_conversation settings gpt_service json_loads gpt_reply llama_generated
               transcript ctx audio_duration
        = (LLaMA,
           case analyze_conversation json_loads llama_generated transcript ctx audio_duration of
             Inl e \<Rightarrow> Inl (HTTPException 500 e)
           | Inr r \<Rightarrow> Inr (response_of_result r)))
   \<and> (client gpt_service = None \<longrightarrow>
        gpt_analyze_conversation gpt_service json_loads gpt_reply transcript ctx' audio_duration
        = Inl (RuntimeError ''GPT client not initialized. Please provide OpenAI API key.''))
   \<and> (client (gpt_service_init openai_available key m) = None
        \<longleftrightarrow> \<not> (openai_available \<and> truthy_key key))"
proof -
  have sel: "fst (test_analyze_conversation settings gpt_service json_loads gpt_reply llama_generated
           transcript ctx audio_duration) = GPT
      \<longleftrightarrow> USE_GPT_ANALYSIS settings \<and> truthy_key (OPENAI_API_KEY settings)"
    by (simp add: test_analyze_conversation_def Let_def)
  have gpt: "USE_GPT_ANALYSIS settings \<and> truthy_key (OPENAI_API_KEY settings) \<longrightarrow>
        snd (test_analyze_conversation settings gpt_service json_loads gpt_reply llama_generated
               transcript ctx audio_duration)
        = (case gpt_analyze_conversation gpt_service json_loads gpt_reply transcript
                  (case ctx of None \<Rightarrow> ''General conversation''
                   | Some c \<Rightarrow> if c = [] then ''General conversation'' else c)
                  audio_duration of
             Inl e \<Rightarrow> Inl (HTTPException 500 e)
           | Inr r \<Rightarrow> Inr (response_of_result r))"
    by (simp add: test_analyze_conversation_def Let_def)
  have llama: "\<not> (USE_GPT_ANALYSIS settings \<and> truthy_key (OPENAI_API_KEY settings)) \<longrightarrow>
        test_analyze_conversation settings gpt_service json_loads gpt_reply llama_generated
               transcript ctx audio_duration
        = (LLaMA,
           case analyze_conversation json_loads llama_generated transcript ctx audio_duration of
             Inl e \<Rightarrow> Inl (HTTPException 500 e)
           | Inr r \<Rightarrow> Inr (response_of_result r))"
    by (simp add: test_analyze_conversation_def Let_def)
  have noclient: "client gpt_service = None \<longrightarrow>
        gpt_analyze_conversation gpt_service json_loads gpt_reply transcript ctx' audio_duration
        = Inl (RuntimeError ''GPT client not initialized. Please provide OpenAI API key.'')"
    by (simp add: gpt_analyze_conversation_def)
  have init: "client (gpt_service_init openai_available key m) = None
        \<longleftrightarrow> \<not> (openai_available \<and> truthy_key key)"
    by (cases key) (simp_all add: gpt_service_init_def truthy_key_def)
  from sel gpt llama noclient init show ?thesis by blast
qed

theorem service_selected_by_configuration_witness:
  "test_analyze_conversation
      \<lparr>USE_GPT_ANALYSIS = True, OPENAI_API_KEY = None, GPT_MODEL = ''gpt-3.5-turbo''\<rparr>
      (gpt_service_init True None ''gpt-3.5-turbo'')
      (\<lambda>s. Inl JSONDecodeError) (Inr ''unused'') (Inl (OtherException ''no model''))
      ''I like tea'' None None
    = (LLaMA,
       case analyze_conversation (\<lambda>s. Inl JSONDecodeError) (Inl (OtherException ''no model''))
              ''I like tea'' None None of
         Inl e \<Rightarrow> Inl (HTTPException 500 e)
       | Inr r \<Rightarrow> Inr (response_of_result r))
   \<and> snd (test_analyze_conversation
      \<lparr>USE_GPT_ANALYSIS = True, OPENAI_API_KEY = Some ''sk-test'', GPT_MODEL = ''gpt-3.5-turbo''\<rparr>
      (gpt_service_init False (Some ''sk-test'') ''gpt-3.5-turbo'')
      (\<lambda>s. Inl JSONDecodeError) (Inr ''unused'') (Inl (OtherException ''no model''))
      ''I like tea'' None None)
    = Inl (HTTPException 500
             (RuntimeError ''GPT client not initialized. Please provide OpenAI API key.''))"
proof -
  have a: "test_analyze_conversation
      \<lparr>USE_GPT_ANALYSIS = True, OPENAI_API_KEY = None, GPT_MODEL = ''gpt-3.5-turbo''\<rparr>
      (gpt_service_init True None ''gpt-3.5-turbo'')
      (\<lambda>s. Inl JSONDecodeError) (Inr ''unused'') (Inl (OtherException ''no model''))
      ''I like tea'' None None
    = (LLaMA,
       case analyze_conversation (\<lambda>s. Inl JSONDecodeError) (Inl (OtherException ''no model''))
              ''I like tea'' None None of
         Inl e \<Rightarrow> Inl (HTTPException 500 e)
       | Inr r \<Rightarrow> Inr (response_of_result r))"
    using service_selected_by_configuration
      [where settings = "\<lparr>USE_GPT_ANALYSIS = True, OPENAI_API_KEY = None,
                          GPT_MODEL = ''gpt-3.5-turbo''\<rparr>"
         and gpt_service = "gpt_service_init True None ''gpt-3.5-turbo''"
         and json_loads = "\<lambda>s. Inl JSONDecodeError" and gpt_reply = "Inr ''unused''"
         and llama_generated = "Inl (OtherException ''no model'')"
         and transcript = "''I like tea''" and ctx = None and audio_duration = None]
    by (simp add: truthy_key_def)
  have c: "client (gpt_service_init False (Some ''sk-test'') ''gpt-3.5-turbo'') = None"
    by (simp add: gpt_service_init_def)
  have b: "snd (test_analyze_conversation
      \<lparr>USE_GPT_ANALYSIS = True, OPENAI_API_KEY = Some ''sk-test'', GPT_MODEL = ''gpt-3.5-turbo''\<rparr>
      (gpt_service_init False (Some ''sk-test'') ''gpt-3.5-turbo'')
      (\<lambda>s. Inl JSONDecodeError) (Inr ''unused'') (Inl (OtherException ''no model''))
      ''I like tea'' None None)
    = Inl (HTTPException 500
             (RuntimeError ''GPT client not initialized. Please provide OpenAI API key.''))"
    using service_selected_by_configuration
      [where settings = "\<lparr>USE_GPT_ANALYSIS = True, OPENAI_API_KEY = Some ''sk-test'',
                          GPT_MODEL = ''gpt-3.5-turbo''\<rparr>"
         and gpt_service = "gpt_service_init False (Some ''sk-test'') ''gpt-3.5-turbo''"
         and json_loads = "\<lambda>s. Inl JSONDecodeError" and gpt_reply = "Inr ''unused''"
         and llama_generated = "Inl (OtherException ''no model'')"
         and transcript = "''I like tea''" and ctx = None and audio_duration = None
         and ctx' = "''General conversation''"]
      c
    by (simp add: truthy_key_def)
  from a b show ?thesis by blast
qed

subsection \<open>C6: the regex fallback of the GPT response parser\<close>

lemma score_fold_other:
  "k \<notin> (\<lambda>st. st @ ''_score'') ` set sts \<Longrightarrow>
   map_of (foldl (\<lambda>scores score_type.
                    case re_search (match_score_at score_type) t of
                      Some m \<Rightarrow> (score_type @ ''_score'', PNum (py_float m)) # scores
                    | None \<Rightarrow> scores) acc sts) k
   = map_of acc k"
  by (induction sts arbitrary: acc) (auto split: option.splits)

lemma score_fold_found:
  "distinct sts \<Longrightarrow> st \<in> set sts \<Longrightarrow>
   map_of (foldl (\<lambda>scores score_type.
                    case re_search (match_score_at score_type) t of
                      Some m \<Rightarrow> (score_type @ ''_score'', PNum (py_float m)) # scores
                    | None \<Rightarrow> scores) acc sts) (st @ ''_score'')
   = (case re_search (match_score_at st) t of
        Some m \<Rightarrow> Some (PNum (py_float m))
      | None \<Rightarrow> map_of acc (st @ ''_score''))"
proof (induction sts arbitrary: acc)
  case Nil
  then show ?case by simp
next
  case (Cons a sts)
  show ?case
  proof (cases "st = a")
    case True
    with Cons.prems have "st @ ''_score'' \<notin> (\<lambda>st. st @ ''_score'') ` set sts" by auto
    from score_fold_other [OF this] True show ?thesis
      by (simp split: option.splits)
  next
    case False
    with Cons.prems have "distinct sts" "st \<in> set sts" by auto
    from Cons.IH [OF this] False show ?thesis
      by (simp split: option.splits)
  qed
qed

lemma found_scores_type:
  assumes "st \<in> set score_types"
  shows "map_of (found_scores t) (st @ ''_score'')
     = map_option (\<lambda>m. PNum (py_float m)) (re_search (match_score_at st) t)"
proof -
  have d: "distinct score_types" by (simp add: score_types_def)
  have nl: "st @ ''_score'' \<noteq> ''proficiency_level''" "st @ ''_score'' \<noteq> ''overall_score''"
    using assms by (auto simp: score_types_def)
  show ?thesis
    unfolding found_scores_def Let_def
    using score_fold_found [OF d assms, of t] nl
    by (simp split: option.splits)
qed

lemma found_scores_overall:
  "map_of (found_scores t) ''overall_score''
     = map_option (\<lambda>m. PNum (py_float m)) (re_search (match_score_at ''overall'') t)"
proof -
  have "''overall_score'' \<notin> (\<lambda>st. st @ ''_score'') ` set score_types"
    by (simp add: score_types_def)
  from score_fold_other [OF this, of t] show ?thesis
    unfolding found_scores_def Let_def
    by (simp split: option.splits)
qed

lemma found_scores_level:
  "map_of (found_scores t) ''proficiency_level''
     = map_option (\<lambda>l. PStr (py_upper l)) (re_search match_level_at t)"
proof -
  have "''proficiency_level'' \<notin> (\<lambda>st. st @ ''_score'') ` set score_types"
    by (simp add: score_types_def)
  from score_fold_other [OF this, of t] show ?thesis
    unfolding found_scores_def Let_def
    by (simp split: option.splits)
qed

lemma found_scores_lookup:
  "map_of (found_scores t) ''grammar_score''
     = map_option (\<lambda>m. PNum (py_float m)) (re_search (match_score_at ''grammar'') t)"
  "map_of (found_scores t) ''vocabulary_score''
     = map_option (\<lambda>m. PNum (py_float m)) (re_search (match_score_at ''vocabulary'') t)"
  "map_of (found_scores t) ''fluency_score''
     = map_option (\<lambda>m. PNum (py_float m)) (re_search (match_score_at ''fluency'') t)"
  "map_of (found_scores t) ''pronunciation_score''
     = map_option (\<lambda>m. PNum (py_float m)) (re_search (match_score_at ''pronunciation'') t)"
  "map_of (found_scores t) ''comprehension_score''
     = map_option (\<lambda>m. PNum (py_float m)) (re_search (match_score_at ''comprehension'') t)"
  using found_scores_type [of "''grammar''" t] found_scores_type [of "''vocabulary''" t]
    found_scores_type [of "''fluency''" t] found_scores_type [of "''pronunciation''" t]
    found_scores_type [of "''comprehension''" t]
  by (simp_all add: score_types_def)

lemma dict_get_map_of:
  "dict_get d k dflt = (case map_of d k of None \<Rightarrow> dflt | Some v \<Rightarrow> v)"
  by (simp add: dict_get_def)

text \<open>
  C6 as stated does not hold for the proficiency level. The text "proficiency level: C1"
  contains no JSON object and none of the six score patterns matches it, yet
  \<open>fallback_parse\<close> returns the level "C1" and not the default "B1": the level has a
  pattern of its own.
\<close>

theorem fallback_parse_level_counterexample:
  "extract_json ''proficiency level: C1'' = None
   \<and> re_search (match_score_at ''overall'') ''proficiency level: C1'' = None
   \<and> re_search (match_score_at ''grammar'') ''proficiency level: C1'' = None
   \<and> re_search (match_score_at ''vocabulary'') ''proficiency level: C1'' = None
   \<and> re_search (match_score_at ''fluency'') ''proficiency level: C1'' = None
   \<and> re_search (match_score_at ''pronunciation'') ''proficiency level: C1'' = None
   \<and> re_search (match_score_at ''comprehension'') ''proficiency level: C1'' = None
   \<and> map_of (fallback_parse ''proficiency level: C1'') ''proficiency_level'' = Some (PStr ''C1'')
   \<and> PStr ''C1'' \<noteq> PStr ''B1''"
  by code_simp

text \<open>
  C6, amended. \<open>fallback_parse\<close> decides every entry by its own pattern. Each of the six
  scores is the number matched by its pattern and otherwise its default (overall 50.0,
  grammar 12.5, vocabulary 10.0, fluency 10.0, pronunciation 7.5, comprehension 10.0); the
  proficiency level is the matched level in upper case and otherwise "B1"; the lists
  \<^verbatim>\<open>grammar_errors\<close> and \<^verbatim>\<open>vocabulary_analysis\<close> are always empty. \<open>parse_gpt_response\<close>
  returns this result when the text holds no brace pair, and when the text between the
  braces is not JSON.
\<close>

theorem fallback_parse_defaults:
  "map_of (fallback_parse t) ''overall_score''
     = Some (case re_search (match_score_at ''overall'') t of
               None \<Rightarrow> PNum 50 | Some m \<Rightarrow> PNum (py_float m))
   \<and> map_of (fallback_parse t) ''grammar_score''
     = Some (case re_search (match_score_at ''grammar'') t of
               None \<Rightarrow> PNum 12.5 | Some m \<Rightarrow> PNum (py_float m))
   \<and> map_of (fallback_parse t) ''vocabulary_score''
     = Some (case re_search (match_score_at ''vocabulary'') t of
               None \<Rightarrow> PNum 10 | Some m \<Rightarrow> PNum (py_float m))
   \<and> map_of (fallback_parse t) ''fluency_score''
     = Some (case re_search (match_score_at ''fluency'') t of
               None \<Rightarrow> PNum 10 | Some m \<Rightarrow> PNum (py_float m))
   \<and> map_of (fallback_parse t) ''pronunciation_score''
     = Some (case re_search (match_score_at ''pronunciation'') t of
               None \<Rightarrow> PNum 7.5 | Some m \<Rightarrow> PNum (py_float m))
   \<and> map_of (fallback_parse t) ''comprehension_score''
     = Some (case re_search (match_score_at ''comprehension'') t of
               None \<Rightarrow> PNum 10 | Some m \<Rightarrow> PNum (py_float m))
   \<and> map_of (fallback_parse t) ''proficiency_level''
     = Some (case re_search match_level_at t of
               None \<Rightarrow> PStr ''B1'' | Some l \<Rightarrow> PStr (py_upper l))
   \<and> map_of (fallback_parse t) ''grammar_errors'' = Some (PList [])
   \<and> map_of (fallback_parse t) ''vocabulary_analysis'' = Some (PList [])
   \<and> (extract_json t = None \<longrightarrow>
        parse_gpt_response json_loads t = Inr (PDict (fallback_parse t)))
   \<and> (extract_json t = Some j \<and> json_loads j = Inl JSONDecodeError \<longrightarrow>
        parse_gpt_response json_loads t = Inr (PDict (fallback_parse t)))"
proof -
  have scores: "map_of (fallback_parse t) ''overall_score''
     = Some (case re_search (match_score_at ''overall'') t of
               None \<Rightarrow> PNum 50 | Some m \<Rightarrow> PNum (py_float m))"
   "map_of (fallback_parse t) ''grammar_score''
     = Some (case re_search (match_score_at ''grammar'') t of
               None \<Rightarrow> PNum 12.5 | Some m \<Rightarrow> PNum (py_float m))"
   "map_of (fallback_parse t) ''vocabulary_score''
     = Some (case re_search (match_score_at ''vocabulary'') t of
               None \<Rightarrow> PNum 10 | Some m \<Rightarrow> PNum (py_float m))"
   "map_of (fallback_parse t) ''fluency_score''
     = Some (case re_search (match_score_at ''fluency'') t of
               None \<Rightarrow> PNum 10 | Some m \<Rightarrow> PNum (py_float m))"
   "map_of (fallback_parse t) ''pronunciation_score''
     = Some (case re_search (match_score_at ''pronunciation'') t of
               None \<Rightarrow> PNum 7.5 | Some m \<Rightarrow> PNum (py_float m))"
   "map_of (fallback_parse t) ''comprehension_score''
     = Some (case re_search (match_score_at ''comprehension'') t of
               None \<Rightarrow> PNum 10 | Some m \<Rightarrow> PNum (py_float m))"
   "map_of (fallback_parse t) ''proficiency_level''
     = Some (case re_search match_level_at t of
               None \<Rightarrow> PStr ''B1'' | Some l \<Rightarrow> PStr (py_upper l))"
    unfolding fallback_parse_def Let_def dict_get_map_of found_scores_overall
      found_scores_lookup found_scores_level
    by (simp_all split: option.split)
  have lists: "map_of (fallback_parse t) ''grammar_errors'' = Some (PList [])"
    "map_of (fallback_parse t) ''vocabulary_analysis'' = Some (PList [])"
    by (simp_all add: fallback_parse_def Let_def)
  have nojson: "extract_json t = None \<longrightarrow>
        parse_gpt_response json_loads t = Inr (PDict (fallback_parse t))"
    by (simp add: parse_gpt_response_def except_json_decode_def try_except_def)
  have badjson: "extract_json t = Some j \<and> json_loads j = Inl JSONDecodeError \<longrightarrow>
        parse_gpt_response json_loads t = Inr (PDict (fallback_parse t))"
    by (simp add: parse_gpt_response_def except_json_decode_def try_except_def)
  from scores lists nojson badjson show ?thesis by blast
qed

theorem fallback_parse_defaults_witness:
  "parse_gpt_response (\<lambda>s. Inl JSONDecodeError) ''Grammar score: 18.5''
     = Inr (PDict (fallback_parse ''Grammar score: 18.5''))
   \<and> map_of (fallback_parse ''Grammar score: 18.5'') ''grammar_score'' = Some (PNum 18.5)
   \<and> map_of (fallback_parse ''Grammar score: 18.5'') ''vocabulary_score'' = Some (PNum 10)
   \<and> parse_gpt_response (\<lambda>s. Inl JSONDecodeError) ''fluency score: 9 {not json}''
     = Inr (PDict (fallback_parse ''fluency score: 9 {not json}''))"
proof -
  have e: "extract_json ''Grammar score: 18.5'' = None" by code_simp
  have g: "re_search (match_score_at ''grammar'') ''Grammar score: 18.5'' = Some ''18.5''"
    by code_simp
  have v: "re_search (match_score_at ''vocabulary'') ''Grammar score: 18.5'' = None"
    by code_simp
  have f: "py_float ''18.5'' = 18.5" by code_simp
  have e2: "extract_json ''fluency score: 9 {not json}'' = Some ''{not json}''" by code_simp
  have a: "parse_gpt_response (\<lambda>s. Inl JSONDecodeError) ''Grammar score: 18.5''
     = Inr (PDict (fallback_parse ''Grammar score: 18.5''))
   \<and> map_of (fallback_parse ''Grammar score: 18.5'') ''grammar_score'' = Some (PNum 18.5)
   \<and> map_of (fallback_parse ''Grammar score: 18.5'') ''vocabulary_score'' = Some (PNum 10)"
    using fallback_parse_defaults [of "''Grammar score: 18.5''" "\<lambda>s. Inl JSONDecodeError"] e g v f
    by simp
  have b: "parse_gpt_response (\<lambda>s. Inl JSONDecodeError) ''fluency score: 9 {not json}''
     = Inr (PDict (fallback_parse ''fluency score: 9 {not json}''))"
    using fallback_parse_defaults
      [of "''fluency score: 9 {not json}''" "\<lambda>s. Inl JSONDecodeError" "''{not json}''"] e2
    by simp
  from a b show ?thesis by blast
qed

subsection \<open>C7: the recovery layers of the analysis pipeline\<close>

text \<open>
  C7 as stated, a single \<^verbatim>\<open>try/except\<close> layer that substitutes the rule-based fallback
  result and nothing nested beyond it, does not hold. With an LLM output whose
  \<^verbatim>\<open>detailed_feedback\<close> is a string, \<open>llm_based_evaluation\<close> succeeds and does not fall back,
  the \<^verbatim>\<open>.get\<close> calls of \<open>analyze_conversation\<close> then raise, and its own handler returns the
  fixed \<open>failed_analysis\<close>, which is not what the rule-based fallback gives.
\<close>

theorem single_recovery_layer_counterexample:
  "llm_based_evaluation json_sample (Inr ''{\"detailed_feedback\": \"good\"}'')
       ''I like tea'' None =
     Inr [(''grammar_score'', PNum 0), (''vocabulary_score'', PNum 0), (''fluency_score'', PNum 0),
          (''comprehension_score'', PNum 0), (''overall_score'', PNum 0),
          (''proficiency_level'', PStr ''A1''), (''detailed_feedback'', PStr ''good''),
          (''evaluation_method'', PStr ''LLM-based'')]
   \<and> analyze_conversation json_sample (Inr ''{\"detailed_feedback\": \"good\"}'')
       ''I like tea'' None None = Inr failed_analysis
   \<and> result_of_evaluation (fallback_evaluation ''I like tea'') \<noteq> Inr failed_analysis"
proof -
  have a: "analyze_conversation json_sample (Inr ''{\"detailed_feedback\": \"good\"}'')
       ''I like tea'' None None = Inr failed_analysis"
    by (simp add: analyze_conversation_def try_except_def bind_e_def bad_feedback_eval
        bad_feedback_result)
  have b: "result_of_evaluation (fallback_evaluation ''I like tea'') \<noteq> Inr failed_analysis"
    using fallback_result_differs [of "''I like tea''"] by auto
  from a b bad_feedback_eval show ?thesis by blast
qed

text \<open>
  C7, amended. Recovery has two layers. Inside \<open>llm_based_evaluation\<close> every failure of
  generation, parsing or clamping is replaced by the rule-based \<open>fallback_evaluation\<close>
  (the only other outcome is the dictionary of clamped LLM scores); the rule-based result
  always converts into an analysis result, which differs from \<open>failed_analysis\<close>. Around
  it, \<open>analyze_conversation\<close> replaces any remaining exception by the fixed
  \<open>failed_analysis\<close>. Model loading has a fallback of its own: when the tokenizer or the
  model of the configured name fails to load, the tokenizer and the model of "gpt2" are
  loaded instead, and when either of those fails too a \<^verbatim>\<open>RuntimeError\<close> is raised; without
  a failure the configured model is kept.
\<close>

theorem analysis_recovery_layers:
  "(llm_based_evaluation json_loads generated transcript ctx = Inr (fallback_evaluation transcript)
     \<or> (\<exists>response data d. generated = Inr response \<and> json_loads response = Inr data
           \<and> llm_scores data = Inr d
           \<and> llm_based_evaluation json_loads generated transcript ctx = Inr d))
   \<and> (\<exists>r. result_of_evaluation (fallback_evaluation transcript) = Inr r \<and> r \<noteq> failed_analysis)
   \<and> (analyze_conversation json_loads generated transcript ctx audio_duration = Inr failed_analysis
     \<or> (\<exists>ev r. llm_based_evaluation json_loads generated transcript ctx = Inr ev
           \<and> result_of_evaluation ev = Inr r
           \<and> analyze_conversation json_loads generated transcript ctx audio_duration = Inr r))
   \<and> (load_tokenizer model_name = Inl e \<longrightarrow>
        initialize_model load_tokenizer load_model model_name
          = load_fallback_model load_tokenizer load_model)
   \<and> (load_tokenizer model_name = Inr tok \<and> load_model model_name = Inl e \<longrightarrow>
        initialize_model load_tokenizer load_model model_name
          = load_fallback_model load_tokenizer load_model)
   \<and> (load_tokenizer model_name = Inr tok \<and> load_model model_name = Inr mdl \<longrightarrow>
        initialize_model load_tokenizer load_model model_name = Inr (tok, mdl, model_name))
   \<and> (load_tokenizer ''gpt2'' = Inl e \<longrightarrow>
        load_fallback_model load_tokenizer load_model
          = Inl (RuntimeError ''No suitable model could be loaded''))
   \<and> (load_tokenizer ''gpt2'' = Inr tok \<and> load_model ''gpt2'' = Inl e \<longrightarrow>
        load_fallback_model load_tokenizer load_model
          = Inl (RuntimeError ''No suitable model could be loaded''))
   \<and> (load_tokenizer ''gpt2'' = Inr tok \<and> load_model ''gpt2'' = Inr mdl \<longrightarrow>
        load_fallback_model load_tokenizer load_model = Inr (tok, mdl, ''gpt2''))"
proof -
  have init_tok: "load_tokenizer model_name = Inl e \<longrightarrow>
        initialize_model load_tokenizer load_model model_name
          = load_fallback_model load_tokenizer load_model"
    by (simp add: initialize_model_def try_except_def bind_e_def)
  have init_mdl: "load_tokenizer model_name = Inr tok \<and> load_model model_name = Inl e \<longrightarrow>
        initialize_model load_tokenizer load_model model_name
          = load_fallback_model load_tokenizer load_model"
    by (simp add: initialize_model_def try_except_def bind_e_def)
  have init_ok: "load_tokenizer model_name = Inr tok \<and> load_model model_name = Inr mdl \<longrightarrow>
        initialize_model load_tokenizer load_model model_name = Inr (tok, mdl, model_name)"
    by (simp add: initialize_model_def try_except_def bind_e_def)
  have fb_tok: "load_tokenizer ''gpt2'' = Inl e \<longrightarrow>
        load_fallback_model load_tokenizer load_model
          = Inl (RuntimeError ''No suitable model could be loaded'')"
    by (simp add: load_fallback_model_def try_except_def bind_e_def)
  have fb_mdl: "load_tokenizer ''gpt2'' = Inr tok \<and> load_model ''gpt2'' = Inl e \<longrightarrow>
        load_fallback_model load_tokenizer load_model
          = Inl (RuntimeError ''No suitable model could be loaded'')"
    by (simp add: load_fallback_model_def try_except_def bind_e_def)
  have fb_ok: "load_tokenizer ''gpt2'' = Inr tok \<and> load_model ''gpt2'' = Inr mdl \<longrightarrow>
        load_fallback_model load_tokenizer load_model = Inr (tok, mdl, ''gpt2'')"
    by (simp add: load_fallback_model_def try_except_def bind_e_def)
  from llm_based_evaluation_cases [of json_loads generated transcript ctx]
       fallback_result_differs [of transcript]
       analyze_conversation_cases [of json_loads generated transcript ctx audio_duration]
       init_tok init_mdl init_ok fb_tok fb_mdl fb_ok
  show ?thesis by blast
qed

theorem analysis_recovery_layers_witness:
  "initialize_model
       (\<lambda>n. if n = ''gpt2'' then Inr (1::nat) else Inl (OtherException ''tokenizer not found''))
       (\<lambda>n. Inr (2::nat)) ''microsoft/DialoGPT-medium''
     = Inr (1, 2, ''gpt2'')
   \<and> initialize_model (\<lambda>n. Inr (1::nat))
       (\<lambda>n. if n = ''gpt2'' then Inr (2::nat) else Inl (OtherException ''out of memory''))
       ''microsoft/DialoGPT-medium''
     = Inr (1, 2, ''gpt2'')
   \<and> initialize_model (\<lambda>n. Inr (1::nat)) (\<lambda>n. Inr (2::nat)) ''microsoft/DialoGPT-medium''
     = Inr (1, 2, ''microsoft/DialoGPT-medium'')
   \<and> initialize_model (\<lambda>n. Inr (1::nat))
       (\<lambda>n. Inl (OtherException ''out of memory'') :: error + nat) ''microsoft/DialoGPT-medium''
     = Inl (RuntimeError ''No suitable model could be loaded'')
   \<and> load_fallback_model (\<lambda>n. Inl (OtherException ''offline'') :: error + nat)
         (\<lambda>n. Inr (2::nat)) = Inl (RuntimeError ''No suitable model could be loaded'')"
proof -
  have w1: "initialize_model
       (\<lambda>n. if n = ''gpt2'' then Inr (1::nat) else Inl (OtherException ''tokenizer not found''))
       (\<lambda>n. Inr (2::nat)) ''microsoft/DialoGPT-medium''
     = Inr (1, 2, ''gpt2'')"
    using analysis_recovery_layers
      [where load_tokenizer =
           "\<lambda>n. if n = ''gpt2'' then Inr (1::nat) else Inl (OtherException ''tokenizer not found'')"
         and load_model = "\<lambda>n. Inr (2::nat)" and model_name = "''microsoft/DialoGPT-medium''"
         and e = "OtherException ''tokenizer not found''" and tok = 1 and mdl = 2]
    by simp
  have w2: "initialize_model (\<lambda>n. Inr (1::nat))
       (\<lambda>n. if n = ''gpt2'' then Inr (2::nat) else Inl (OtherException ''out of memory''))
       ''microsoft/DialoGPT-medium''
     = Inr (1, 2, ''gpt2'')"
    using analysis_recovery_layers
      [where load_tokenizer = "\<lambda>n. Inr (1::nat)"
         and load_model =
           "\<lambda>n. if n = ''gpt2'' then Inr (2::nat) else Inl (OtherException ''out of memory'')"
         and model_name = "''microsoft/DialoGPT-medium''"
         and e = "OtherException ''out of memory''" and tok = 1 and mdl = 2]
    by simp
  have w3: "initialize_model (\<lambda>n. Inr (1::nat)) (\<lambda>n. Inr (2::nat)) ''microsoft/DialoGPT-medium''
     = Inr (1, 2, ''microsoft/DialoGPT-medium'')"
    using analysis_recovery_layers
      [where load_tokenizer = "\<lambda>n. Inr (1::nat)" and load_model = "\<lambda>n. Inr (2::nat)"
         and model_name = "''microsoft/DialoGPT-medium''" and tok = 1 and mdl = 2]
    by simp
  have w4: "initialize_model (\<lambda>n. Inr (1::nat))
       (\<lambda>n. Inl (OtherException ''out of memory'') :: error + nat) ''microsoft/DialoGPT-medium''
     = Inl (RuntimeError ''No suitable model could be loaded'')"
    using analysis_recovery_layers
      [where load_tokenizer = "\<lambda>n. Inr (1::nat)"
         and load_model = "\<lambda>n. Inl (OtherException ''out of memory'') :: error + nat"
         and model_name = "''microsoft/DialoGPT-medium''"
         and e = "OtherException ''out of memory''" and tok = 1]
    by simp
  have w5: "load_fallback_model (\<lambda>n. Inl (OtherException ''offline'') :: error + nat)
         (\<lambda>n. Inr (2::nat)) = Inl (RuntimeError ''No suitable model could be loaded'')"
    using analysis_recovery_layers
      [where load_tokenizer = "\<lambda>n. Inl (OtherException ''offline'') :: error + nat"
         and load_model = "\<lambda>n. Inr (2::nat)" and e = "OtherException ''offline''"]
    by simp
  from w1 w2 w3 w4 w5 show ?thesis by blast
qed

subsection \<open>C8: the progress query degrades to fixed defaults\<close>

lemma round2_zero: "round2 0 = 0"
  by (simp add: round2_def)

lemma bind_db_execute:
  "bind_e (db_execute fails k rows) f
     = (if fails k then Inl (OtherException ''database error'') else f rows)"
  by (simp add: bind_e_def db_execute_def)

lemma get_user_progress_failing:
  assumes "fails 0 \<or> fails 1 \<or> fails 2 \<or> fails 3 \<or> fails 4"
  shows "get_user_progress fails db user_id = Inr default_progress"
  using assms unfolding get_user_progress_def bind_db_execute
  by (elim disjE) (simp_all add: try_except_def)

lemma get_user_progress_total:
  "\<exists>p. get_user_progress fails db user_id = Inr p"
  unfolding get_user_progress_def bind_db_execute
  by (simp add: try_except_def Let_def)

lemma get_user_progress_no_evaluations:
  assumes "\<not> fails 0" "\<not> fails 1" "\<not> fails 2" "\<not> fails 3" "\<not> fails 4"
    and "user_evaluations db user_id = []"
  shows "\<exists>p. get_user_progress fails db user_id = Inr p
             \<and> total_conversations p = length (user_conversations db user_id)
             \<and> average_score p = 0 \<and> current_level p = ''A1''"
  unfolding get_user_progress_def bind_db_execute assms(6)
  using assms(1-5)
  by (simp add: try_except_def Let_def scalar_def sql_avg_def newest_first_def round2_zero)

lemma below_five: "k < (5::nat) \<Longrightarrow> k = 0 \<or> k = 1 \<or> k = 2 \<or> k = 3 \<or> k = 4"
  by arith

text \<open>
  C8. \<open>get_user_progress\<close> never raises. When any of its five database queries fails, the
  progress it returns is exactly the default: no conversations, average score 0.0, level
  "A1", no last conversation date and five empty trend lists. For a user without
  evaluations, the path on which every query succeeds reports the average score 0.0 and
  the level "A1" as well.
\<close>

theorem get_user_progress_defaults:
  "((\<exists>k<5. fails k) \<longrightarrow> get_user_progress fails db user_id = Inr default_progress)
   \<and> default_progress =
       \<lparr> total_conversations = 0, average_score = 0, current_level = ''A1'',
         last_conversation_date = None, grammar_trend = [], vocabulary_trend = [],
         fluency_trend = [], pronunciation_trend = [], comprehension_trend = [] \<rparr>
   \<and> (\<exists>p. get_user_progress fails db user_id = Inr p)
   \<and> ((\<forall>k<5. \<not> fails k) \<and> user_evaluations db user_id = [] \<longrightarrow>
        (\<exists>p. get_user_progress fails db user_id = Inr p
             \<and> total_conversations p = length (user_conversations db user_id)
             \<and> average_score p = 0 \<and> current_level p = ''A1''))"
proof -
  have failing: "(\<exists>k<5. fails k) \<longrightarrow> get_user_progress fails db user_id = Inr default_progress"
  proof
    assume "\<exists>k<5. fails k"
    then obtain k where k: "k < 5" "fails k" by blast
    from below_five [OF k(1)] k(2)
    have "fails 0 \<or> fails 1 \<or> fails 2 \<or> fails 3 \<or> fails 4" by blast
    then show "get_user_progress fails db user_id = Inr default_progress"
      by (rule get_user_progress_failing)
  qed
  have dflt: "default_progress =
       \<lparr> total_conversations = 0, average_score = 0, current_level = ''A1'',
         last_conversation_date = None, grammar_trend = [], vocabulary_trend = [],
         fluency_trend = [], pronunciation_trend = [], comprehension_trend = [] \<rparr>"
    by (simp add: default_progress_def)
  have empty: "(\<forall>k<5. \<not> fails k) \<and> user_evaluations db user_id = [] \<longrightarrow>
        (\<exists>p. get_user_progress fails db user_id = Inr p
             \<and> total_conversations p = length (user_conversations db user_id)
             \<and> average_score p = 0 \<and> current_level p = ''A1'')"
  proof
    assume h: "(\<forall>k<5. \<not> fails k) \<and> user_evaluations db user_id = []"
    then have nf: "\<not> fails 0" "\<not> fails 1" "\<not> fails 2" "\<not> fails 3" "\<not> fails 4" by simp_all
    from h have ne: "user_evaluations db user_id = []" by simp
    from get_user_progress_no_evaluations [OF nf ne]
    show "\<exists>p. get_user_progress fails db user_id = Inr p
             \<and> total_conversations p = length (user_conversations db user_id)
             \<and> average_score p = 0 \<and> current_level p = ''A1''" .
  qed
  from failing dflt get_user_progress_total [of fails db user_id] empty
  show ?thesis by blast
qed

theorem get_user_progress_defaults_witness:
  "get_user_progress (\<lambda>k. k = 3)
      \<lparr>conversations = [\<lparr>conv_id = 1, conv_user_id = 7, conv_created_at = 10\<rparr>],
       evaluations = []\<rparr> 7 = Inr default_progress
   \<and> (\<exists>p. get_user_progress (\<lambda>k. False)
      \<lparr>conversations = [\<lparr>conv_id = 1, conv_user_id = 7, conv_created_at = 10\<rparr>],
       evaluations = []\<rparr> 7 = Inr p
        \<and> total_conversations p = 1 \<and> average_score p = 0 \<and> current_level p = ''A1'')"
proof -
  have three: "\<exists>k<5. (\<lambda>k. k = (3::nat)) k" by auto
  have a: "get_user_progress (\<lambda>k. k = 3)
      \<lparr>conversations = [\<lparr>conv_id = 1, conv_user_id = 7, conv_created_at = 10\<rparr>],
       evaluations = []\<rparr> 7 = Inr default_progress"
    using get_user_progress_defaults [of "\<lambda>k. k = 3"
      "\<lparr>conversations = [\<lparr>conv_id = 1, conv_user_id = 7, conv_created_at = 10\<rparr>],
       evaluations = []\<rparr>" 7] three
    by blast
  have ne: "user_evaluations
      \<lparr>conversations = [\<lparr>conv_id = 1, conv_user_id = 7, conv_created_at = 10\<rparr>],
       evaluations = []\<rparr> 7 = []"
    by (simp add: user_evaluations_def)
  have len: "length (user_conversations
      \<lparr>conversations = [\<lparr>conv_id = 1, conv_user_id = 7, conv_created_at = 10\<rparr>],
       evaluations = []\<rparr> 7) = 1"
    by (simp add: user_conversations_def)
  have b: "\<exists>p. get_user_progress (\<lambda>k. False)
      \<lparr>conversations = [\<lparr>conv_id = 1, conv_user_id = 7, conv_created_at = 10\<rparr>],
       evaluations = []\<rparr> 7 = Inr p
        \<and> total_conversations p = 1 \<and> average_score p = 0 \<and> current_level p = ''A1''"
    using get_user_progress_defaults [of "\<lambda>k. False"
      "\<lparr>conversations = [\<lparr>conv_id = 1, conv_user_id = 7, conv_created_at = 10\<rparr>],
       evaluations = []\<rparr>" 7] ne
    unfolding len by simp
  from a b show ?thesis by blast
qed

subsection \<open>C9: scores against the bounds of the response schema\<close>

lemma split_acc_repeated_a:
  "split_acc [] (concat (replicate n ''a '')) = replicate n ''a''"
  by (induction n) (simp_all add: is_space_def)

lemma py_lower_repeated_a:
  "py_lower (concat (replicate n ''a '')) = concat (replicate n ''a '')"
  by (induction n) (simp_all add: py_lower_def lower_char_def)

lemma remdups_replicate_Suc: "remdups (replicate (Suc n) x) = [x]"
  by (induction n) simp_all

lemma a_not_advanced: "''a'' \<notin> set advanced_words"
  by (simp add: advanced_words_def)

lemma long_text_vocabulary:
  "analyze_vocabulary (concat (replicate 140 ''a '')) =
     [(''score'', PNum 21),
      (''feedback'', PStr ''Vocabulary: 140 words, 1 unique, 0 advanced, 0 spelling errors'')]"
proof -
  have w: "py_split (py_lower (concat (replicate 140 ''a ''))) = replicate 140 ''a''"
    by (simp only: py_lower_repeated_a py_split_def split_acc_repeated_a)
  have s140: "str_nat 140 = ''140''"
    by (subst str_nat.simps, subst str_nat.simps, subst str_nat.simps) (simp add: digit_char_def)
  have s1: "str_nat (Suc 0) = ''1''" "str_nat 0 = ''0''"
    by (simp_all add: digit_char_def)
  have u: "remdups (replicate 140 ''a'') = [''a'']"
    using remdups_replicate_Suc [of 139 "''a''"] by simp
  show ?thesis
    unfolding analyze_vocabulary_def w Let_def u
    by (simp add: is_alpha_def a_not_advanced s140 s1 del: str_nat.simps)
qed

lemma vocabulary_score_exceeds_20:
  assumes "134 \<le> length (py_split (py_lower text))"
  shows "map_of (analyze_vocabulary text) ''score''
           = Some (PNum (real (length (py_split (py_lower text))) * 0.15))
         \<and> 20 < real (length (py_split (py_lower text))) * 0.15"
proof -
  let ?n = "length (py_split (py_lower text))"
  from assms have ne: "py_split (py_lower text) \<noteq> []" by auto
  from assms have big: "20 < real ?n * 0.15" by simp
  show ?thesis
    unfolding analyze_vocabulary_def Let_def using ne assms big
    by (simp add: max_def)
qed

lemma all_25_scores:
  "llm_scores (PDict [(''grammar_score'', PNum 25), (''vocabulary_score'', PNum 25),
                      (''fluency_score'', PNum 25), (''comprehension_score'', PNum 25)]) =
     Inr [(''grammar_score'', PNum 25), (''vocabulary_score'', PNum 25),
          (''fluency_score'', PNum 25), (''comprehension_score'', PNum 25),
          (''overall_score'', PNum 100), (''proficiency_level'', PStr ''A1''),
          (''detailed_feedback'', PDict []), (''evaluation_method'', PStr ''LLM-based'')]"
  by (simp add: llm_scores_def bind_e_def py_get_def dict_get_def clamp_score_def
      py_min_num_def py_max_num_def py_add_def is_number_def)

text \<open>
  C9 asks that every score stays inside the bounds of the response schema. The code does
  not keep them. An LLM output with the score 25 in every dimension passes the clamp to
  25 unchanged, so the vocabulary, fluency and comprehension scores of the analysis
  result are 25, above the schema's 20, and the bounds of the schema fail for the
  result. And \<open>analyze_vocabulary\<close> returns 21 for a text of 140 words, since its minimum
  score, 0.15 per word, is applied after the cap at 20 (by \<open>vocabulary_score_exceeds_20\<close>
  the score is above 20 for every text of 134 words or more).
\<close>

theorem schema_bounds_exceeded:
  "(\<exists>r. analyze_conversation json_sample
          (Inr ''{\"grammar_score\": 25, \"vocabulary_score\": 25, \"fluency_score\": 25, \"comprehension_score\": 25}'')
          ''I like tea'' None None = Inr r
        \<and> vocabulary_score r = PNum 25 \<and> fluency_score r = PNum 25
        \<and> comprehension_score r = PNum 25
        \<and> \<not> analysis_response_bounds r)
   \<and> map_of (analyze_vocabulary (concat (replicate 140 ''a ''))) ''score'' = Some (PNum 21)"
proof -
  have ev: "llm_based_evaluation json_sample
          (Inr ''{\"grammar_score\": 25, \"vocabulary_score\": 25, \"fluency_score\": 25, \"comprehension_score\": 25}'')
          ''I like tea'' None =
     Inr [(''grammar_score'', PNum 25), (''vocabulary_score'', PNum 25),
          (''fluency_score'', PNum 25), (''comprehension_score'', PNum 25),
          (''overall_score'', PNum 100), (''proficiency_level'', PStr ''A1''),
          (''detailed_feedback'', PDict []), (''evaluation_method'', PStr ''LLM-based'')]"
    by (simp add: llm_based_evaluation_def try_except_def except_json_decode_def bind_e_def
        all_25_scores json_sample_simps)
  have a: "\<exists>r. analyze_conversation json_sample
          (Inr ''{\"grammar_score\": 25, \"vocabulary_score\": 25, \"fluency_score\": 25, \"comprehension_score\": 25}'')
          ''I like tea'' None None = Inr r
        \<and> vocabulary_score r = PNum 25 \<and> fluency_score r = PNum 25
        \<and> comprehension_score r = PNum 25
        \<and> \<not> analysis_response_bounds r"
    unfolding analyze_conversation_def ev
    by (simp add: try_except_def bind_e_def result_of_evaluation_def dict_item_def py_get_def
        dict_get_def analysis_response_bounds_def score_between_def)
  have b: "map_of (analyze_vocabulary (concat (replicate 140 ''a ''))) ''score'' = Some (PNum 21)"
    by (simp add: long_text_vocabulary)
  from a b show ?thesis by blast
qed

subsection \<open>C10: the CEFR mapping is total and monotone\<close>

lemma cefr_rank_simps:
  "cefr_rank ''A1'' = 0" "cefr_rank ''A2'' = 1" "cefr_rank ''B1'' = 2"
  "cefr_rank ''B2'' = 3" "cefr_rank ''C1'' = 4" "cefr_rank ''C2'' = 5"
  by (simp_all add: cefr_rank_def cefr_levels_def)

text \<open>
  C10. For every real score, \<open>determine_proficiency_level\<close> returns exactly one of "A1",
  "A2", "B1", "B2", "C1", "C2", with the thresholds 15, 25, 40, 55 and 70, and the mapping is
  monotone: of two scores, the lower one never gets the higher CEFR level.
\<close>

theorem determine_proficiency_level_total_monotone:
  "determine_proficiency_level s \<in> set cefr_levels
   \<and> distinct cefr_levels
   \<and> (determine_proficiency_level s = ''A1'' \<longleftrightarrow> s < 15)
   \<and> (determine_proficiency_level s = ''A2'' \<longleftrightarrow> 15 \<le> s \<and> s < 25)
   \<and> (determine_proficiency_level s = ''B1'' \<longleftrightarrow> 25 \<le> s \<and> s < 40)
   \<and> (determine_proficiency_level s = ''B2'' \<longleftrightarrow> 40 \<le> s \<and> s < 55)
   \<and> (determine_proficiency_level s = ''C1'' \<longleftrightarrow> 55 \<le> s \<and> s < 70)
   \<and> (determine_proficiency_level s = ''C2'' \<longleftrightarrow> 70 \<le> s)
   \<and> (s1 \<le> s2 \<longrightarrow>
        cefr_rank (determine_proficiency_level s1) \<le> cefr_rank (determine_proficiency_level s2))"
proof -
  have mem: "determine_proficiency_level s \<in> set cefr_levels"
    by (simp add: determine_proficiency_level_def cefr_levels_def)
  have dist: "distinct cefr_levels"
    by (simp add: cefr_levels_def)
  have thr: "(determine_proficiency_level s = ''A1'' \<longleftrightarrow> s < 15)
   \<and> (determine_proficiency_level s = ''A2'' \<longleftrightarrow> 15 \<le> s \<and> s < 25)
   \<and> (determine_proficiency_level s = ''B1'' \<longleftrightarrow> 25 \<le> s \<and> s < 40)
   \<and> (determine_proficiency_level s = ''B2'' \<longleftrightarrow> 40 \<le> s \<and> s < 55)
   \<and> (determine_proficiency_level s = ''C1'' \<longleftrightarrow> 55 \<le> s \<and> s < 70)
   \<and> (determine_proficiency_level s = ''C2'' \<longleftrightarrow> 70 \<le> s)"
    by (simp add: determine_proficiency_level_def)
  have mono: "s1 \<le> s2 \<longrightarrow>
        cefr_rank (determine_proficiency_level s1) \<le> cefr_rank (determine_proficiency_level s2)"
    by (simp add: determine_proficiency_level_def cefr_rank_simps)
  from mem dist thr mono show ?thesis by blast
qed

theorem determine_proficiency_level_total_monotone_witness:
  "(20::real) \<le> 60
   \<and> determine_proficiency_level 30 = ''B1''
   \<and> cefr_rank (determine_proficiency_level 20) \<le> cefr_rank (determine_proficiency_level 60)"
  using determine_proficiency_level_total_monotone [of 30 20 60] by simp

end
